theory Spec2Isabelle
  imports Main "HOL-Library.AList"
begin

section \<open>JavaScript values\<close>

text \<open>
  The cache is written in JavaScript/TypeScript and dispatches on the dynamic shape of its
  arguments, so the model starts from a datatype of the values that reach the code.
  An object is the list of its own enumerable string-keyed properties in insertion order
  (the order \<^verbatim>\<open>Object.entries\<close> and \<^verbatim>\<open>JSON.stringify\<close> follow); numbers are integers;
  a \<^verbatim>\<open>Buffer\<close> and a \<^verbatim>\<open>URLSearchParams\<close> are represented by the string their
  \<^verbatim>\<open>toString()\<close> returns; a \<^verbatim>\<open>FormData\<close> (package form-data) by the value of
  \<^verbatim>\<open>getBoundary()\<close> and its own properties; a node-fetch \<^verbatim>\<open>Headers\<close> by the pairs its
  \<^verbatim>\<open>entries()\<close> yields.
\<close>

datatype jsval =
    JUndefined
  | JNull
  | JBool bool
  | JNum int
  | JStr string
  | JFunction
  | JArray "jsval list"
  | JObject "(string \<times> jsval) list"
  | JBuffer string
  | JURLSearchParams string
  | JReadStream "(string \<times> jsval) list"
  | JFormData string "(string \<times> jsval) list"
  | JHeaders "(string \<times> string) list"

text \<open>Every \<^verbatim>\<open>throw\<close> of the source and every runtime exception it can run into.\<close>

datatype error =
    TypeError
  | UnsupportedBodyType
  | TransportError string
  | StreamError string
  | StorageError string

text \<open>Truthiness, as \<^verbatim>\<open>if (x)\<close>, \<^verbatim>\<open>!x\<close>, \<^verbatim>\<open>x ? a : b\<close> and \<^verbatim>\<open>x || y\<close> test it.\<close>

fun js_truthy :: "jsval \<Rightarrow> bool" where
  "js_truthy JUndefined = False"
| "js_truthy JNull = False"
| "js_truthy (JBool b) = b"
| "js_truthy (JNum n) = (n \<noteq> 0)"
| "js_truthy (JStr s) = (s \<noteq> [])"
| "js_truthy _ = True"

text \<open>Reading a property of an object: \<^verbatim>\<open>undefined\<close> when the object has no such property.\<close>

definition get_prop :: "(string \<times> jsval) list \<Rightarrow> string \<Rightarrow> jsval" where
  "get_prop ps k = (case map_of ps k of None \<Rightarrow> JUndefined | Some v \<Rightarrow> v)"

fun string_of_nat :: "nat \<Rightarrow> string" where
  "string_of_nat n =
     (if n < 10 then [char_of (48 + n)]
      else string_of_nat (n div 10) @ [char_of (48 + n mod 10)])"

declare string_of_nat.simps [simp del]

definition string_of_int :: "int \<Rightarrow> string" where
  "string_of_int i = (if i < 0 then CHR ''-'' # string_of_nat (nat (- i)) else string_of_nat (nat i))"

fun enumerate_from :: "nat \<Rightarrow> 'a list \<Rightarrow> (string \<times> 'a) list" where
  "enumerate_from i [] = []"
| "enumerate_from i (x # xs) = (string_of_nat i, x) # enumerate_from (Suc i) xs"

text \<open>
  \<^verbatim>\<open>Object.entries(v)\<close>: the own enumerable string-keyed properties. An array has its
  indices, a string its characters; a \<^verbatim>\<open>Headers\<close> object keeps its map under a symbol
  and has none; \<^verbatim>\<open>undefined\<close> is only passed where the source guards it.
\<close>

fun Object_entries :: "jsval \<Rightarrow> (string \<times> jsval) list" where
  "Object_entries (JObject ps) = ps"
| "Object_entries (JReadStream ps) = ps"
| "Object_entries (JFormData b ps) = ps"
| "Object_entries (JArray xs) = enumerate_from 0 xs"
| "Object_entries (JStr s) = enumerate_from 0 (map (\<lambda>c. JStr [c]) s)"
| "Object_entries _ = []"

text \<open>
  \<^verbatim>\<open>v.k\<close> and \<^verbatim>\<open>v.hasOwnProperty(k)\<close> on a value that is not \<^verbatim>\<open>undefined\<close> or
  \<^verbatim>\<open>null\<close> (where the source can read a property of those, the model raises
  \<^verbatim>\<open>TypeError\<close> at that place).
\<close>

definition js_member :: "jsval \<Rightarrow> string \<Rightarrow> jsval" where
  "js_member v k = get_prop (Object_entries v) k"

definition hasOwnProperty :: "jsval \<Rightarrow> string \<Rightarrow> bool" where
  "hasOwnProperty v k = (k \<in> set (map fst (Object_entries v)))"

text \<open>\<^verbatim>\<open>Object.fromEntries\<close>: a later pair with the same key overwrites the value in place.\<close>

definition Object_fromEntries :: "(string \<times> jsval) list \<Rightarrow> (string \<times> jsval) list" where
  "Object_fromEntries es = fold (\<lambda>(k, v) acc. AList.update k v acc) es []"

definition toLowerCase_char :: "char \<Rightarrow> char" where
  "toLowerCase_char c =
     (let n = (of_char c :: nat) in if 65 \<le> n \<and> n \<le> 90 then char_of (n + 32) else c)"

definition toLowerCase :: "string \<Rightarrow> string" where
  "toLowerCase s = map toLowerCase_char s"

fun intercalate :: "string \<Rightarrow> string list \<Rightarrow> string" where
  "intercalate sep [] = []"
| "intercalate sep [x] = x"
| "intercalate sep (x # y # ys) = x @ sep @ intercalate sep (y # ys)"

text \<open>
  \<^verbatim>\<open>v.toString()\<close>. The source calls it on a truthy non-string body only; a function's
  text is not modelled beyond the fact that it never reads \<^verbatim>\<open>[object FormData]\<close>.
\<close>

fun js_toString :: "jsval \<Rightarrow> string" where
  "js_toString JUndefined = ''undefined''"
| "js_toString JNull = ''null''"
| "js_toString (JBool b) = (if b then ''true'' else ''false'')"
| "js_toString (JNum n) = string_of_int n"
| "js_toString (JStr s) = s"
| "js_toString JFunction = ''function () { [native code] }''"
| "js_toString (JArray xs) =
     intercalate '','' (map (\<lambda>x. if x = JUndefined \<or> x = JNull then [] else js_toString x) xs)"
| "js_toString (JObject ps) = ''[object Object]''"
| "js_toString (JBuffer s) = s"
| "js_toString (JURLSearchParams s) = s"
| "js_toString (JReadStream ps) = ''[object Object]''"
| "js_toString (JFormData b ps) = ''[object FormData]''"
| "js_toString (JHeaders hs) = ''[object Headers]''"

subsection \<open>JSON.stringify\<close>

definition hex_digit :: "nat \<Rightarrow> char" where
  "hex_digit n = (if n < 10 then char_of (48 + n) else char_of (87 + n))"

definition json_escape_char :: "char \<Rightarrow> string" where
  "json_escape_char c =
     (let n = (of_char c :: nat) in
      if n = 0x22 then [CHR 0x5C, CHR 0x22]
      else if n = 0x5C then [CHR 0x5C, CHR 0x5C]
      else if n = 0x08 then [CHR 0x5C, CHR ''b'']
      else if n = 0x0C then [CHR 0x5C, CHR ''f'']
      else if n = 0x0A then [CHR 0x5C, CHR ''n'']
      else if n = 0x0D then [CHR 0x5C, CHR ''r'']
      else if n = 0x09 then [CHR 0x5C, CHR ''t'']
      else if n < 0x20 then
        [CHR 0x5C, CHR ''u'', CHR ''0'', CHR ''0'', hex_digit (n div 16), hex_digit (n mod 16)]
      else [c])"

definition json_quote :: "string \<Rightarrow> string" where
  "json_quote s = CHR 0x22 # concat (map json_escape_char s) @ [CHR 0x22]"

text \<open>
  \<^verbatim>\<open>JSON.stringify\<close>; \<open>None\<close> is the result \<^verbatim>\<open>undefined\<close>. A property whose value
  serialises to \<^verbatim>\<open>undefined\<close> is left out of an object and written \<^verbatim>\<open>null\<close> in an
  array; a \<^verbatim>\<open>Buffer\<close> has a \<^verbatim>\<open>toJSON\<close>; the other objects are written by their own
  enumerable properties. The numbers of the model are whole and are written in decimal
  digits (a JavaScript number of magnitude \<open>10\<^sup>2\<^sup>1\<close> or more is written with an
  exponent, and fractions have no value here).
\<close>

fun JSON_stringify :: "jsval \<Rightarrow> string option" where
  "JSON_stringify JUndefined = None"
| "JSON_stringify JFunction = None"
| "JSON_stringify JNull = Some ''null''"
| "JSON_stringify (JBool b) = Some (if b then ''true'' else ''false'')"
| "JSON_stringify (JNum n) = Some (string_of_int n)"
| "JSON_stringify (JStr s) = Some (json_quote s)"
| "JSON_stringify (JArray xs) =
     Some (''['' @ intercalate '','' (map (\<lambda>x. case JSON_stringify x of None \<Rightarrow> ''null'' | Some s \<Rightarrow> s) xs) @ '']'')"
| "JSON_stringify (JObject ps) =
     Some (''{'' @ intercalate '','' (concat (map (\<lambda>(k, v). case JSON_stringify v of None \<Rightarrow> []
                | Some s \<Rightarrow> [json_quote k @ '':'' @ s]) ps)) @ ''}'')"
| "JSON_stringify (JBuffer s) =
     Some (''{'' @ json_quote ''type'' @ '':'' @ json_quote ''Buffer'' @ '','' @ json_quote ''data'' @ '':[''
           @ intercalate '','' (map (\<lambda>c. string_of_nat (of_char c)) s) @ '']}'')"
| "JSON_stringify (JURLSearchParams s) = Some ''{}''"
| "JSON_stringify (JReadStream ps) =
     Some (''{'' @ intercalate '','' (concat (map (\<lambda>(k, v). case JSON_stringify v of None \<Rightarrow> []
                | Some s \<Rightarrow> [json_quote k @ '':'' @ s]) ps)) @ ''}'')"
| "JSON_stringify (JFormData b ps) =
     Some (''{'' @ intercalate '','' (concat (map (\<lambda>(k, v). case JSON_stringify v of None \<Rightarrow> []
                | Some s \<Rightarrow> [json_quote k @ '':'' @ s]) ps)) @ ''}'')"
| "JSON_stringify (JHeaders hs) = Some ''{}''"

section \<open>Key derivation\<close>

text \<open>
  The module-level state of the source is the object \<^verbatim>\<open>key_flags\<close>; every function that
  reads it takes it as its first argument. A flag is read as \<^verbatim>\<open>key_flags['name'] ? a : b\<close>.
  \<^verbatim>\<open>md5\<close> (Node's crypto) is a parameter of the key derivation.
\<close>

type_synonym key_flags = "(string \<times> jsval) list"

definition CACHE_VERSION :: int where
  "CACHE_VERSION = 4"

definition DEFAULT_KEY_FLAGS :: key_flags where
  "DEFAULT_KEY_FLAGS =
     [(''cache'', JBool True), (''credentials'', JBool True), (''destination'', JBool True),
      (''headers'', JBool True), (''integrity'', JBool True), (''method'', JBool True),
      (''redirect'', JBool True), (''referrer'', JBool True), (''referrerPolicy'', JBool True),
      (''url'', JBool True), (''body'', JBool True)]"

definition flag_on :: "key_flags \<Rightarrow> string \<Rightarrow> bool" where
  "flag_on key_flags k = js_truthy (get_prop key_flags k)"

definition ebind :: "error + 'a \<Rightarrow> ('a \<Rightarrow> error + 'b) \<Rightarrow> error + 'b" where
  "ebind m f = (case m of Inl e \<Rightarrow> Inl e | Inr x \<Rightarrow> f x)"

text \<open>
  \<^verbatim>\<open>s.replace(new RegExp(boundary, 'g'), '')\<close>: every match, left to right, without
  overlaps, is removed. The boundary is read literally, which is what the regular
  expression does for the boundaries that the form library makes: dashes and decimal
  digits, none of them a regular-expression operator. For a boundary with such an
  operator the expression matches other strings, or does not compile; the statements
  about the removal of the boundary are made for boundaries of dashes and digits
  (\<open>boundary_token\<close> below). The empty pattern matches everywhere and removes nothing.
\<close>

function replace_all :: "string \<Rightarrow> string \<Rightarrow> string" where
  "replace_all b [] = []"
| "replace_all b (c # cs) =
     (if b \<noteq> [] \<and> take (length b) (c # cs) = b
      then replace_all b (drop (length b) (c # cs))
      else c # replace_all b cs)"
  by pat_completeness auto
termination
  by (relation "measure (\<lambda>(b, s). length s)") auto

definition getFormDataCacheKey :: "jsval \<Rightarrow> error + jsval" where
  "getFormDataCacheKey formData =
     (case formData of
        JFormData boundary props \<Rightarrow>
          (let cacheKey = AList.delete ''_boundary'' props in
           case get_prop cacheKey ''_streams'' of
             JArray streams \<Rightarrow>
               Inr (JObject (AList.update ''_streams''
                     (JArray (map (\<lambda>s. case s of JStr t \<Rightarrow> JStr (replace_all boundary t) | _ \<Rightarrow> s) streams))
                     cacheKey))
           | _ \<Rightarrow> Inl TypeError)
      | _ \<Rightarrow> Inl TypeError)"

fun is_boolean :: "jsval \<Rightarrow> bool" where
  "is_boolean (JBool b) = True"
| "is_boolean _ = False"

fun is_string :: "jsval \<Rightarrow> bool" where
  "is_string (JStr s) = True"
| "is_string _ = False"

definition getHeadersCacheKeyJson :: "key_flags \<Rightarrow> (string \<times> jsval) list \<Rightarrow> jsval" where
  "getHeadersCacheKeyJson key_flags headersObj =
     JObject (Object_fromEntries
       (filter (\<lambda>(key, value).
            (key \<noteq> ''cache-control'' \<or> value \<noteq> JStr ''only-if-cached'')
          \<and> (is_boolean (get_prop key_flags ''headers'')
               \<or> \<not> hasOwnProperty (get_prop key_flags ''headers'') key
               \<or> js_truthy (js_member (get_prop key_flags ''headers'') key)))
         (map (\<lambda>(key, value). (toLowerCase key, value)) headersObj)))"

definition getHeadersCacheKeyJson_cjs :: "(string \<times> jsval) list \<Rightarrow> jsval" where
  "getHeadersCacheKeyJson_cjs headersObj =
     JObject (Object_fromEntries
       (filter (\<lambda>(key, value). key \<noteq> ''cache-control'' \<or> value \<noteq> JStr ''only-if-cached'')
         (map (\<lambda>(key, value). (toLowerCase key, value)) headersObj)))"

definition getBodyCacheKeyJson :: "jsval \<Rightarrow> error + jsval" where
  "getBodyCacheKeyJson body =
     (if \<not> js_truthy body then Inr body
      else if is_string body then Inr body
      else case body of
          JURLSearchParams s \<Rightarrow> Inr (JStr s)
        | JReadStream props \<Rightarrow> Inr (get_prop props ''path'')
        | _ \<Rightarrow>
           if js_toString body = ''[object FormData]'' then getFormDataCacheKey body
           else (case body of
                   JBuffer s \<Rightarrow> Inr (JStr s)
                 | _ \<Rightarrow> Inl UnsupportedBodyType))"

text \<open>
  \<^verbatim>\<open>getRequestCacheKey(req)\<close> reads properties of \<^verbatim>\<open>req\<close> by name, so \<^verbatim>\<open>req\<close> is the
  list of the properties a read finds: those of a node-fetch \<^verbatim>\<open>Request\<close>, or of the
  object literal \<^verbatim>\<open>{ url: resource }\<close> that the TypeScript source passes for a resource
  that is not a \<^verbatim>\<open>Request\<close>. The first statement calls \<^verbatim>\<open>req.headers.entries()\<close>,
  whatever the flags are: without a \<^verbatim>\<open>Headers\<close> object under \<^verbatim>\<open>headers\<close> it throws.
\<close>

definition getRequestCacheKey :: "key_flags \<Rightarrow> (string \<times> jsval) list \<Rightarrow> error + (string \<times> jsval) list" where
  "getRequestCacheKey key_flags req =
     (case get_prop req ''headers'' of
        JHeaders entries \<Rightarrow>
          (let headersPojo = Object_fromEntries (map (\<lambda>(k, v). (k, JStr v)) entries) in
           ebind (if flag_on key_flags ''body'' then getBodyCacheKeyJson (get_prop req ''body'')
                  else Inr (JStr []))
             (\<lambda>body. Inr
               [(''cache'', if flag_on key_flags ''cache'' then get_prop req ''cache'' else JStr []),
                (''credentials'', if flag_on key_flags ''credentials'' then get_prop req ''credentials'' else JStr []),
                (''destination'', if flag_on key_flags ''destination'' then get_prop req ''destination'' else JStr []),
                (''headers'', if flag_on key_flags ''headers'' then getHeadersCacheKeyJson key_flags headersPojo else JStr []),
                (''integrity'', if flag_on key_flags ''integrity'' then get_prop req ''integrity'' else JStr []),
                (''method'', if flag_on key_flags ''method'' then get_prop req ''method'' else JStr []),
                (''redirect'', if flag_on key_flags ''redirect'' then get_prop req ''redirect'' else JStr []),
                (''referrer'', if flag_on key_flags ''referrer'' then get_prop req ''referrer'' else JStr []),
                (''referrerPolicy'', if flag_on key_flags ''referrerPolicy'' then get_prop req ''referrerPolicy'' else JStr []),
                (''url'', if flag_on key_flags ''url'' then get_prop req ''url'' else JStr []),
                (''body'', body)]))
      | _ \<Rightarrow> Inl TypeError)"

definition getRequestCacheKey_cjs :: "key_flags \<Rightarrow> (string \<times> jsval) list \<Rightarrow> error + (string \<times> jsval) list" where
  "getRequestCacheKey_cjs key_flags req =
     (case get_prop req ''headers'' of
        JHeaders entries \<Rightarrow>
          (let headersPojo = Object_fromEntries (map (\<lambda>(k, v). (k, JStr v)) entries) in
           ebind (if flag_on key_flags ''body'' then getBodyCacheKeyJson (get_prop req ''body'')
                  else Inr (JStr []))
             (\<lambda>body. Inr
               [(''cache'', if flag_on key_flags ''cache'' then get_prop req ''cache'' else JStr []),
                (''credentials'', if flag_on key_flags ''credentials'' then get_prop req ''credentials'' else JStr []),
                (''destination'', if flag_on key_flags ''destination'' then get_prop req ''destination'' else JStr []),
                (''headers'', if flag_on key_flags ''headers'' then getHeadersCacheKeyJson_cjs headersPojo else JStr []),
                (''integrity'', if flag_on key_flags ''integrity'' then get_prop req ''integrity'' else JStr []),
                (''method'', if flag_on key_flags ''method'' then get_prop req ''method'' else JStr []),
                (''redirect'', if flag_on key_flags ''redirect'' then get_prop req ''redirect'' else JStr []),
                (''referrer'', if flag_on key_flags ''referrer'' then get_prop req ''referrer'' else JStr []),
                (''referrerPolicy'', if flag_on key_flags ''referrerPolicy'' then get_prop req ''referrerPolicy'' else JStr []),
                (''url'', if flag_on key_flags ''url'' then get_prop req ''url'' else JStr []),
                (''body'', body)]))
      | _ \<Rightarrow> Inl TypeError)"

text \<open>
  The first argument of \<^verbatim>\<open>fetch\<close> and of \<^verbatim>\<open>getCacheKey\<close>: a node-fetch \<^verbatim>\<open>Request\<close>
  (\<^verbatim>\<open>resource instanceof Request\<close>), given by its properties, or any other value, a URL
  string as a rule.
\<close>

datatype resource = Request "(string \<times> jsval) list" | NotRequest jsval

text \<open>\<^verbatim>\<open>init.headers || {}\<close>\<close>

definition headers_or_empty :: "jsval \<Rightarrow> jsval" where
  "headers_or_empty init =
     (if js_truthy (js_member init ''headers'') then js_member init ''headers'' else JObject [])"

definition digest_of :: "(string \<Rightarrow> string) \<Rightarrow> jsval \<Rightarrow> error + string" where
  "digest_of md5 v = (case JSON_stringify v of None \<Rightarrow> Inl TypeError | Some s \<Rightarrow> Inr (md5 s))"

text \<open>
  \<^verbatim>\<open>getCacheKey(resource, init = {})\<close> of the TypeScript source. The default applies to
  an \<^verbatim>\<open>init\<close> that is \<^verbatim>\<open>undefined\<close>; reading \<^verbatim>\<open>init.headers\<close> of \<^verbatim>\<open>null\<close> throws.
\<close>

definition getCacheKey :: "(string \<Rightarrow> string) \<Rightarrow> key_flags \<Rightarrow> resource \<Rightarrow> jsval \<Rightarrow> error + string" where
  "getCacheKey md5 key_flags resource init_arg =
     (let init = (if init_arg = JUndefined then JObject [] else init_arg) in
      ebind (case resource of
               Request req \<Rightarrow> getRequestCacheKey key_flags req
             | NotRequest url \<Rightarrow> getRequestCacheKey key_flags [(''url'', url)])
        (\<lambda>resourceCacheKeyJson.
      ebind (if flag_on key_flags ''headers''
             then (if init = JNull then Inl TypeError
                   else Inr (getHeadersCacheKeyJson key_flags (Object_entries (headers_or_empty init))))
             else Inr (JStr []))
        (\<lambda>headers.
      let initCacheKeyJson = AList.update ''headers'' headers (Object_entries init) in
      ebind (getBodyCacheKeyJson (get_prop resourceCacheKeyJson ''body''))
        (\<lambda>resourceBody.
      ebind (getBodyCacheKeyJson (get_prop initCacheKeyJson ''body''))
        (\<lambda>initBody.
      digest_of md5
        (JArray [JObject (AList.update ''body'' resourceBody resourceCacheKeyJson),
                 JObject (AList.delete ''agent'' (AList.update ''body'' initBody initCacheKeyJson)),
                 JNum CACHE_VERSION]))))))"

text \<open>
  \<^verbatim>\<open>getCacheKey\<close> of the CommonJS build: a resource that is not a \<^verbatim>\<open>Request\<close> becomes
  \<^verbatim>\<open>{ url: resource }\<close> directly, and the headers of \<^verbatim>\<open>init\<close> are always hashed.
\<close>

definition getCacheKey_cjs :: "(string \<Rightarrow> string) \<Rightarrow> key_flags \<Rightarrow> resource \<Rightarrow> jsval \<Rightarrow> error + string" where
  "getCacheKey_cjs md5 key_flags resource init_arg =
     (let init = (if init_arg = JUndefined then JObject [] else init_arg) in
      ebind (case resource of
               Request req \<Rightarrow> getRequestCacheKey_cjs key_flags req
             | NotRequest url \<Rightarrow> Inr [(''url'', url)])
        (\<lambda>resourceCacheKeyJson.
      ebind (if init = JNull then Inl TypeError
             else Inr (getHeadersCacheKeyJson_cjs (Object_entries (headers_or_empty init))))
        (\<lambda>headers.
      let initCacheKeyJson = AList.update ''headers'' headers (Object_entries init) in
      ebind (getBodyCacheKeyJson (get_prop resourceCacheKeyJson ''body''))
        (\<lambda>resourceBody.
      ebind (getBodyCacheKeyJson (get_prop initCacheKeyJson ''body''))
        (\<lambda>initBody.
      digest_of md5
        (JArray [JObject (AList.update ''body'' resourceBody resourceCacheKeyJson),
                 JObject (AList.delete ''agent'' (AList.update ''body'' initBody initCacheKeyJson)),
                 JNum CACHE_VERSION]))))))"

text \<open>
  \<^verbatim>\<open>hasOnlyWithCacheOption(resource, init)\<close>. \<^verbatim>\<open>resource.headers.get('Cache-Control')\<close>
  looks the lower-cased name up in the \<^verbatim>\<open>Headers\<close> of the request.
\<close>

definition hasOnlyWithCacheOption :: "resource \<Rightarrow> jsval \<Rightarrow> bool" where
  "hasOnlyWithCacheOption resource init =
     (if js_truthy init \<and> js_truthy (js_member init ''headers'')
         \<and> list_ex (\<lambda>(key, value). toLowerCase key = ''cache-control'' \<and> value = JStr ''only-if-cached'')
              (Object_entries (js_member init ''headers''))
      then True
      else case resource of
             Request req \<Rightarrow>
               (case get_prop req ''headers'' of
                  JHeaders entries \<Rightarrow> map_of entries (toLowerCase ''Cache-Control'') = Some ''only-if-cached''
                | _ \<Rightarrow> False)
           | NotRequest v \<Rightarrow> False)"

subsection \<open>The module state and \<^verbatim>\<open>createFetchWithCache\<close>\<close>

text \<open>
  \<^verbatim>\<open>const DEFAULT_KEY_FLAGS = {...}; let key_flags = DEFAULT_KEY_FLAGS;\<close> binds two names
  to one object, and \<^verbatim>\<open>Object.assign(target, source)\<close> writes into its target and returns
  it. What a later key derivation reads therefore depends on the aliasing, so the objects
  live in a store of addresses and the two names hold addresses.
\<close>

record module_state =
  objects :: "nat \<Rightarrow> (string \<times> jsval) list"
  DEFAULT_KEY_FLAGS_ref :: nat
  key_flags_ref :: nat

definition module_init :: module_state where
  "module_init = \<lparr> objects = (\<lambda>a. [])(0 := DEFAULT_KEY_FLAGS), DEFAULT_KEY_FLAGS_ref = 0, key_flags_ref = 0 \<rparr>"

definition Object_assign :: "module_state \<Rightarrow> nat \<Rightarrow> jsval \<Rightarrow> module_state \<times> nat" where
  "Object_assign st target source =
     (st\<lparr> objects := (objects st)(target :=
            fold (\<lambda>(k, v) acc. AList.update k v acc) (Object_entries source) (objects st target)) \<rparr>,
      target)"

text \<open>
  \<^verbatim>\<open>createFetchWithCache(cache, options = {})\<close>, as far as the module state goes: the
  function it returns closes over \<^verbatim>\<open>cache\<close> only.
\<close>

definition createFetchWithCache :: "module_state \<Rightarrow> jsval \<Rightarrow> error + module_state" where
  "createFetchWithCache st options_arg =
     (let options = (if options_arg = JUndefined then JObject [] else options_arg) in
      if options = JNull then Inl TypeError
      else (let (st', r) = Object_assign st (DEFAULT_KEY_FLAGS_ref st) (js_member options ''keyFlags'')
            in Inr (st'\<lparr> key_flags_ref := r \<rparr>)))"

definition active_key_flags :: "module_state \<Rightarrow> key_flags" where
  "active_key_flags st = objects st (key_flags_ref st)"

subsection \<open>Multipart bodies that differ in their boundary only\<close>

text \<open>
  To speak about two form bodies with the same fields and different boundary tokens, the
  strings of \<^verbatim>\<open>_streams\<close> are given as texts with marks: a list of literal pieces and
  of places where the form library wrote the boundary. \<open>form_data b others parts\<close> is
  the \<^verbatim>\<open>FormData\<close> object with boundary \<open>b\<close>, the parts rendered with \<open>b\<close>, and
  the remaining own properties \<open>others\<close>. A token stands only at its marks when no
  match of the token begins inside a literal piece of the rendered text. A boundary
  token, as the form library makes it, is a string of dashes and decimal digits.
\<close>

definition boundary_token :: "string \<Rightarrow> bool" where
  "boundary_token b =
     (b \<noteq> [] \<and> list_all (\<lambda>c. c = CHR ''-'' \<or> (48 \<le> (of_char c :: nat) \<and> (of_char c :: nat) \<le> 57)) b)"

datatype segment = Lit string | Boundary

fun render_segment :: "string \<Rightarrow> segment \<Rightarrow> string" where
  "render_segment b (Lit l) = l"
| "render_segment b Boundary = b"

definition render_text :: "string \<Rightarrow> segment list \<Rightarrow> string" where
  "render_text b segs = concat (map (render_segment b) segs)"

definition literal_text :: "segment list \<Rightarrow> string" where
  "literal_text segs = render_text [] segs"

datatype part = Text "segment list" | NonText jsval

fun render_part :: "string \<Rightarrow> part \<Rightarrow> jsval" where
  "render_part b (Text segs) = JStr (render_text b segs)"
| "render_part b (NonText v) = v"

fun plain_part :: "part \<Rightarrow> jsval" where
  "plain_part (Text segs) = JStr (literal_text segs)"
| "plain_part (NonText v) = v"

definition matches_at :: "string \<Rightarrow> string \<Rightarrow> bool" where
  "matches_at b s = (b \<noteq> [] \<and> take (length b) s = b)"

fun token_only_at_marks :: "string \<Rightarrow> segment list \<Rightarrow> bool" where
  "token_only_at_marks b [] = True"
| "token_only_at_marks b (Boundary # segs) = token_only_at_marks b segs"
| "token_only_at_marks b (Lit l # segs) =
     (list_all (\<lambda>i. \<not> matches_at b (drop i l @ render_text b segs)) [0..<length l]
      \<and> token_only_at_marks b segs)"

fun part_ok :: "string \<Rightarrow> part \<Rightarrow> bool" where
  "part_ok b (Text segs) = token_only_at_marks b segs"
| "part_ok b (NonText v) = (\<not> is_string v)"

definition form_data :: "string \<Rightarrow> (string \<times> jsval) list \<Rightarrow> part list \<Rightarrow> jsval" where
  "form_data b others parts =
     JFormData b (AList.update ''_boundary'' (JStr b)
       (AList.update ''_streams'' (JArray (map (render_part b) parts)) others))"

section \<open>The stores\<close>

text \<open>
  A store maps a cache key to a body and a metadata object. Bodies are byte strings;
  a stream is the list of chunks it emits and how it ends: with \<^verbatim>\<open>end\<close>, or with an
  \<^verbatim>\<open>error\<close> event. Metadata is a JSON object: \<^verbatim>\<open>FileSystemCache\<close> writes it with
  \<^verbatim>\<open>JSON.stringify\<close> and reads it with \<^verbatim>\<open>JSON.parse\<close>, which give the object back for
  the values of this type. A promise resolves, rejects, or never settles.
\<close>

datatype json =
    JsonNull
  | JsonBool bool
  | JsonNum int
  | JsonStr string
  | JsonArr "json list"
  | JsonObj "(string \<times> json) list"

type_synonym meta = "(string \<times> json) list"

datatype stream = Stream "string list" | Broken "string list" error

datatype 'a outcome = Resolves 'a | Rejects error | Never_settles

record entry =
  bodyStream :: stream
  metaData :: meta

text \<open>\<^verbatim>\<open>stream.Readable.from(buffer)\<close>: one chunk, then \<^verbatim>\<open>end\<close>.\<close>

definition Readable_from :: "string \<Rightarrow> stream" where
  "Readable_from buffer = Stream [buffer]"

fun stream_contents :: "stream \<Rightarrow> string" where
  "stream_contents (Stream chunks) = concat chunks"
| "stream_contents (Broken chunks e) = concat chunks"

definition streamToBuffer :: "stream \<Rightarrow> string outcome" where
  "streamToBuffer s = (case s of Stream chunks \<Rightarrow> Resolves (concat chunks) | Broken chunks e \<Rightarrow> Rejects e)"

subsection \<open>\<^verbatim>\<open>KeyTimeout\<close> and \<^verbatim>\<open>MemoryCache\<close>\<close>

text \<open>
  The state of a \<^verbatim>\<open>MemoryCache\<close> together with the part of the runtime it uses: the
  clock, in milliseconds, and the pending timers. A timer is its handle, the time it is
  due and the key whose removal its callback \<^verbatim>\<open>() => this.remove(key)\<close> runs.
  \<^verbatim>\<open>setTimeout(f, d)\<close> makes a timer and returns a fresh handle. The timer is due
  \<open>d\<close> milliseconds from now when \<open>1 \<le> d \<le> 2\<^sup>3\<^sup>1 - 1\<close>; the runtime replaces any
  other delay by 1 millisecond (\<^verbatim>\<open>if (!(after >= 1 && after <= TIMEOUT_MAX)) after = 1\<close>).
  \<^verbatim>\<open>clearTimeout(h)\<close> drops the pending timer with handle \<open>h\<close>, and does
  nothing for \<^verbatim>\<open>undefined\<close> or a timer that has run. \<open>mc_ttl\<close> is \<open>Some t\<close> when
  \<^verbatim>\<open>typeof this.ttl === 'number'\<close>, a whole number of milliseconds. The keys are
  digests; a key that names a property of \<^verbatim>\<open>Object.prototype\<close> is outside the model.
\<close>

record memory_cache =
  mc_ttl :: "int option"
  mc_cache :: "string \<rightharpoonup> (string \<times> meta)"
  timeoutHandleForKey :: "string \<rightharpoonup> nat"
  mc_now :: int
  next_handle :: nat
  pending :: "(nat \<times> int \<times> string) list"

definition new_MemoryCache :: "int option \<Rightarrow> int \<Rightarrow> memory_cache" where
  "new_MemoryCache ttl now =
     \<lparr> mc_ttl = ttl, mc_cache = Map.empty, timeoutHandleForKey = Map.empty,
       mc_now = now, next_handle = 0, pending = [] \<rparr>"

definition js_clearTimeout :: "memory_cache \<Rightarrow> nat option \<Rightarrow> memory_cache" where
  "js_clearTimeout c h =
     (case h of None \<Rightarrow> c
      | Some n \<Rightarrow> c\<lparr> pending := filter (\<lambda>(h', due, k). h' \<noteq> n) (pending c) \<rparr>)"

definition TIMEOUT_MAX :: int where
  "TIMEOUT_MAX = 2147483647"

definition js_setTimeout :: "memory_cache \<Rightarrow> string \<Rightarrow> int \<Rightarrow> memory_cache \<times> nat" where
  "js_setTimeout c callback_key durationMs =
     (let after = (if 1 \<le> durationMs \<and> durationMs \<le> TIMEOUT_MAX then durationMs else 1)
      in (c\<lparr> pending := pending c @ [(next_handle c, mc_now c + after, callback_key)],
             next_handle := Suc (next_handle c) \<rparr>,
          next_handle c))"

definition KeyTimeout_clearTimeout :: "memory_cache \<Rightarrow> string \<Rightarrow> memory_cache" where
  "KeyTimeout_clearTimeout c key = js_clearTimeout c (timeoutHandleForKey c key)"

definition KeyTimeout_updateTimeout :: "memory_cache \<Rightarrow> string \<Rightarrow> int \<Rightarrow> memory_cache" where
  "KeyTimeout_updateTimeout c key durationMs =
     (let (c', h) = js_setTimeout (KeyTimeout_clearTimeout c key) key durationMs
      in c'\<lparr> timeoutHandleForKey := (timeoutHandleForKey c')(key \<mapsto> h) \<rparr>)"

definition MemoryCache_get :: "memory_cache \<Rightarrow> string \<Rightarrow> entry option" where
  "MemoryCache_get c key =
     (case mc_cache c key of
        Some (bodyBuffer, meta) \<Rightarrow>
          Some \<lparr> bodyStream = Readable_from bodyBuffer, metaData = meta \<rparr>
      | None \<Rightarrow> None)"

definition MemoryCache_remove :: "memory_cache \<Rightarrow> string \<Rightarrow> memory_cache" where
  "MemoryCache_remove c key =
     (let c' = KeyTimeout_clearTimeout c key in c'\<lparr> mc_cache := (mc_cache c')(key := None) \<rparr>)"

definition MemoryCache_set ::
  "memory_cache \<Rightarrow> string \<Rightarrow> stream \<Rightarrow> meta \<Rightarrow> entry option outcome \<times> memory_cache" where
  "MemoryCache_set c key body meta =
     (case streamToBuffer body of
        Rejects e \<Rightarrow> (Rejects e, c)
      | Never_settles \<Rightarrow> (Never_settles, c)
      | Resolves bodyBuffer \<Rightarrow>
          (let c1 = c\<lparr> mc_cache := (mc_cache c)(key \<mapsto> (bodyBuffer, meta)) \<rparr>;
               c2 = (case mc_ttl c1 of
                       Some ttl \<Rightarrow> KeyTimeout_updateTimeout c1 key ttl
                     | None \<Rightarrow> c1)
           in (Resolves (MemoryCache_get c2 key), c2)))"

text \<open>
  The event loop. When \<open>dt\<close> milliseconds pass, the timers that have become due run in
  the order of their due times; a timer that an earlier callback has cleared does not
  run. \<open>mc_now\<close> is the time at which \<^verbatim>\<open>set\<close> has read the body and runs its
  remaining statements, which do not wait.
\<close>

definition run_timer :: "nat \<times> int \<times> string \<Rightarrow> memory_cache \<Rightarrow> memory_cache" where
  "run_timer t c =
     (if t \<in> set (pending c)
      then MemoryCache_remove (c\<lparr> pending := removeAll t (pending c) \<rparr>) (snd (snd t))
      else c)"

definition elapse :: "nat \<Rightarrow> memory_cache \<Rightarrow> memory_cache" where
  "elapse dt c =
     (let now' = mc_now c + int dt;
          due = sort_key (\<lambda>t. fst (snd t)) (filter (\<lambda>(h, d, k). d \<le> now') (pending c))
      in (fold run_timer due c)\<lparr> mc_now := now' \<rparr>)"

subsection \<open>\<^verbatim>\<open>FileSystemCache\<close> over the content-addressable store\<close>

text \<open>
  The cacache directory of one \<^verbatim>\<open>FileSystemCache\<close>: an index from entry keys to
  integrity tokens and a content store from tokens to data. The data is a sequence of
  bytes (a body) or a JSON text, kept as the object it parses to (a metadata document).
  The digest \<open>ssri\<close> that names a piece of data is a parameter. \<open>fs_faults\<close> is what the
  disk will do to the coming writes, in order: \<open>Some e\<close> makes a write fail with \<open>e\<close>.
  A write of zero bytes through \<^verbatim>\<open>put.stream\<close> fails with the code \<^verbatim>\<open>ENODATA\<close>.
  \<open>fs_now\<close> is \<^verbatim>\<open>Date.now()\<close>, in milliseconds. Every operation on the disk that the
  code awaits takes time: \<open>fs_latency\<close> gives the milliseconds that the coming
  operations take, in order (no time once the list is used up), and \<open>disk_wait\<close> lets
  the clock run for the next of them.
\<close>

datatype blob = Bytes string | Document meta

record file_system_cache =
  fs_ttl :: "int option"
  fs_index :: "string \<rightharpoonup> string"
  fs_content :: "string \<rightharpoonup> blob"
  fs_now :: int
  fs_faults :: "error option list"
  fs_latency :: "nat list"

definition new_FileSystemCache :: "int option \<Rightarrow> int \<Rightarrow> file_system_cache" where
  "new_FileSystemCache ttl now =
     \<lparr> fs_ttl = ttl, fs_index = Map.empty, fs_content = Map.empty, fs_now = now, fs_faults = [],
       fs_latency = [] \<rparr>"

definition disk_wait :: "file_system_cache \<Rightarrow> file_system_cache" where
  "disk_wait c =
     c\<lparr> fs_now := fs_now c + int (case fs_latency c of [] \<Rightarrow> 0 | d # ds \<Rightarrow> d),
        fs_latency := tl (fs_latency c) \<rparr>"

definition ENODATA :: error where
  "ENODATA = StorageError ''ENODATA''"

definition ENOENT :: error where
  "ENOENT = StorageError ''ENOENT''"

definition getBodyAndMetaKeys :: "string \<Rightarrow> string \<times> string" where
  "getBodyAndMetaKeys key = (key @ ''body'', key @ ''meta'')"

definition cacache_put ::
  "(blob \<Rightarrow> string) \<Rightarrow> file_system_cache \<Rightarrow> string \<Rightarrow> blob \<Rightarrow> (error + string) \<times> file_system_cache" where
  "cacache_put ssri c key data =
     (let c = disk_wait c in
      case fs_faults c of
        Some e # rest \<Rightarrow> (Inl e, c\<lparr> fs_faults := rest \<rparr>)
      | _ \<Rightarrow>
         (Inr (ssri data),
          c\<lparr> fs_index := (fs_index c)(key \<mapsto> ssri data),
             fs_content := (fs_content c)(ssri data \<mapsto> data),
             fs_faults := tl (fs_faults c) \<rparr>))"

text \<open>
  \<^verbatim>\<open>body.pipe(cacache.put.stream(dir, key))\<close> with listeners for \<^verbatim>\<open>integrity\<close>
  and \<^verbatim>\<open>error\<close> on the cacache stream. \<^verbatim>\<open>pipe\<close> does not pass an error of the source
  on to its destination, so for a body stream that breaks neither event comes and the
  promise never settles.
\<close>

definition cacache_put_stream ::
  "(blob \<Rightarrow> string) \<Rightarrow> file_system_cache \<Rightarrow> string \<Rightarrow> stream \<Rightarrow> string outcome \<times> file_system_cache" where
  "cacache_put_stream ssri c key body =
     (case body of
        Broken chunks e \<Rightarrow> (Never_settles, c)
      | Stream chunks \<Rightarrow>
          (case fs_faults c of
             Some e # rest \<Rightarrow> (Rejects e, (disk_wait c)\<lparr> fs_faults := rest \<rparr>)
           | _ \<Rightarrow>
              if concat chunks = []
              then (Rejects ENODATA, (disk_wait c)\<lparr> fs_faults := tl (fs_faults c) \<rparr>)
              else (case cacache_put ssri c key (Bytes (concat chunks)) of
                      (Inl e, c') \<Rightarrow> (Rejects e, c')
                    | (Inr i, c') \<Rightarrow> (Resolves i, c'))))"

definition cacache_rm_entry :: "file_system_cache \<Rightarrow> string \<Rightarrow> file_system_cache" where
  "cacache_rm_entry c key = c\<lparr> fs_index := (fs_index c)(key := None) \<rparr>"

fun json_truthy :: "json \<Rightarrow> bool" where
  "json_truthy JsonNull = False"
| "json_truthy (JsonBool b) = b"
| "json_truthy (JsonNum n) = (n \<noteq> 0)"
| "json_truthy (JsonStr s) = (s \<noteq> [])"
| "json_truthy _ = True"

text \<open>
  \<^verbatim>\<open>expiration && expiration < Date.now()\<close>. \<^verbatim>\<open>set\<close> writes a number; for other values
  the comparison converts to a number first: \<^verbatim>\<open>true\<close> is 1, a string of decimal digits
  its value, and what does not convert compares as false. Only strings of decimal digits
  are converted here; the other numeric strings of JavaScript (signed, padded with
  blanks, with an exponent) can reach \<^verbatim>\<open>get\<close> only in metadata that already carries the
  reserved name \<^verbatim>\<open>expiration\<close>, and the numbers of the metadata are whole.
\<close>

definition digits_value :: "string \<Rightarrow> int option" where
  "digits_value s =
     (if s \<noteq> [] \<and> list_all (\<lambda>c. 48 \<le> (of_char c :: nat) \<and> (of_char c :: nat) \<le> 57) s
      then Some (foldl (\<lambda>acc c. 10 * acc + (int (of_char c) - 48)) 0 s)
      else None)"

fun json_toNumber :: "json \<Rightarrow> int option" where
  "json_toNumber JsonNull = Some 0"
| "json_toNumber (JsonBool b) = Some (if b then 1 else 0)"
| "json_toNumber (JsonNum n) = Some n"
| "json_toNumber (JsonStr s) = (if s = [] then Some 0 else digits_value s)"
| "json_toNumber _ = None"

definition expired :: "json option \<Rightarrow> int \<Rightarrow> bool" where
  "expired expiration now =
     (case expiration of
        None \<Rightarrow> False
      | Some e \<Rightarrow> json_truthy e \<and> (case json_toNumber e of None \<Rightarrow> False | Some n \<Rightarrow> n < now))"

text \<open>
  \<^verbatim>\<open>cacache.get.stream.byDigest(dir, integrity)\<close>: the stream of the bytes stored under
  the token; it breaks when nothing is stored under it.
\<close>

definition cacache_get_stream_byDigest :: "file_system_cache \<Rightarrow> json option \<Rightarrow> stream" where
  "cacache_get_stream_byDigest c integrity =
     (case integrity of
        Some (JsonStr i) \<Rightarrow>
          (case fs_content c i of Some (Bytes b) \<Rightarrow> Readable_from b | _ \<Rightarrow> Broken [] ENOENT)
      | _ \<Rightarrow> Broken [] ENOENT)"

text \<open>
  \<^verbatim>\<open>get\<close> awaits its two reads of the disk and then reads the clock:
  \<open>FileSystemCache_get c key\<close> is the call in which that reading is \<open>fs_now c\<close>.
\<close>

definition FileSystemCache_get :: "file_system_cache \<Rightarrow> string \<Rightarrow> entry option outcome" where
  "FileSystemCache_get c key =
     (let (bodyKey, metaKey) = getBodyAndMetaKeys key in
      case fs_index c metaKey of
        None \<Rightarrow> Resolves None
      | Some integrity \<Rightarrow>
          (case fs_content c integrity of
             None \<Rightarrow> Rejects ENOENT
           | Some (Bytes b) \<Rightarrow> Rejects (StorageError ''JSON.parse'')
           | Some (Document meta) \<Rightarrow>
               (let bodyStreamIntegrity = map_of meta ''bodyStreamIntegrity'';
                    empty = map_of meta ''empty'';
                    expiration = map_of meta ''expiration'';
                    meta' = AList.delete ''expiration''
                                  (AList.delete ''empty''
                                    (AList.delete ''bodyStreamIntegrity'' meta))
                in if expired expiration (fs_now c) then Resolves None
                   else Resolves (Some
                     \<lparr> bodyStream =
                         (if (case empty of None \<Rightarrow> False | Some e \<Rightarrow> json_truthy e)
                          then Readable_from []
                          else cacache_get_stream_byDigest c bodyStreamIntegrity),
                       metaData = meta' \<rparr>))))"

definition FileSystemCache_remove :: "file_system_cache \<Rightarrow> string \<Rightarrow> file_system_cache" where
  "FileSystemCache_remove c key =
     (let (bodyKey, metaKey) = getBodyAndMetaKeys key
      in cacache_rm_entry (cacache_rm_entry c bodyKey) metaKey)"

text \<open>
  \<^verbatim>\<open>set\<close> reads the clock for the expiration before its two writes, and its closing
  \<^verbatim>\<open>get\<close> reads it again after them and after its own two reads.
\<close>

definition FileSystemCache_set ::
  "(blob \<Rightarrow> string) \<Rightarrow> file_system_cache \<Rightarrow> string \<Rightarrow> stream \<Rightarrow> meta
     \<Rightarrow> entry option outcome \<times> file_system_cache" where
  "FileSystemCache_set ssri c key body meta =
     (let (bodyKey, metaKey) = getBodyAndMetaKeys key;
          metaCopy = (case fs_ttl c of
                        Some ttl \<Rightarrow> AList.update ''expiration'' (JsonNum (fs_now c + ttl)) meta
                      | None \<Rightarrow> meta);
          write_meta = (\<lambda>metaCopy c.
             case cacache_put ssri c metaKey (Document metaCopy) of
               (Inl e, c') \<Rightarrow> (Rejects e, c')
             | (Inr i, c') \<Rightarrow>
                 (let c'' = disk_wait (disk_wait c') in (FileSystemCache_get c'' key, c'')))
      in case cacache_put_stream ssri c bodyKey body of
           (Never_settles, c1) \<Rightarrow> (Never_settles, c1)
         | (Resolves i, c1) \<Rightarrow> write_meta (AList.update ''bodyStreamIntegrity'' (JsonStr i) metaCopy) c1
         | (Rejects err, c1) \<Rightarrow>
             if err \<noteq> ENODATA then (Rejects err, c1)
             else write_meta (AList.update ''empty'' (JsonBool True) metaCopy) c1)"

section \<open>Notions used to state the properties of the stores\<close>

text \<open>
  \<open>strip_internal\<close> removes the three fields that \<^verbatim>\<open>FileSystemCache\<close> keeps in the
  metadata document for itself. \<open>tokens_apart\<close> says of a digest that it never gives
  a body and a metadata document the same token; \<open>writes_succeed\<close> that the disk lets
  the two writes of a \<^verbatim>\<open>set\<close> through. \<open>set_duration\<close> is the time from the moment
  \<^verbatim>\<open>set\<close> reads the clock to the moment its closing \<^verbatim>\<open>get\<close> reads it: that of four
  operations on the disk. \<open>meta_document\<close> is the document \<^verbatim>\<open>set\<close> writes. \<open>timers_for\<close> lists the pending timers of a key, and \<open>timers_wf\<close> is the
  invariant of \<^verbatim>\<open>KeyTimeout\<close>: every pending timer is the one recorded for its key,
  and handles are not shared between keys. \<open>tagging_digest\<close> is a digest for the
  worked instances.
\<close>

definition tagging_digest :: "blob \<Rightarrow> string" where
  "tagging_digest data =
     (case data of Bytes b \<Rightarrow> ''sha512-bytes-'' @ b
                 | Document d \<Rightarrow> ''sha512-json-'' @ concat (map fst d))"

definition strip_internal :: "meta \<Rightarrow> meta" where
  "strip_internal m = AList.delete ''expiration'' (AList.delete ''empty'' (AList.delete ''bodyStreamIntegrity'' m))"

definition tokens_apart :: "(blob \<Rightarrow> string) \<Rightarrow> bool" where
  "tokens_apart ssri = (\<forall>b d. ssri (Bytes b) \<noteq> ssri (Document d))"

definition writes_succeed :: "file_system_cache \<Rightarrow> bool" where
  "writes_succeed c = list_all (\<lambda>f. f = None) (take 2 (fs_faults c))"

definition set_duration :: "file_system_cache \<Rightarrow> int" where
  "set_duration c = int (sum_list (take 4 (fs_latency c)))"

definition meta_copy :: "file_system_cache \<Rightarrow> meta \<Rightarrow> meta" where
  "meta_copy c m =
     (case fs_ttl c of Some ttl \<Rightarrow> AList.update ''expiration'' (JsonNum (fs_now c + ttl)) m | None \<Rightarrow> m)"

definition meta_document :: "(blob \<Rightarrow> string) \<Rightarrow> file_system_cache \<Rightarrow> string \<Rightarrow> meta \<Rightarrow> meta" where
  "meta_document ssri c body m =
     (if body = [] then AList.update ''empty'' (JsonBool True) (meta_copy c m)
      else AList.update ''bodyStreamIntegrity'' (JsonStr (ssri (Bytes body))) (meta_copy c m))"

definition timers_for :: "memory_cache \<Rightarrow> string \<Rightarrow> (nat \<times> int \<times> string) list" where
  "timers_for c key = filter (\<lambda>t. snd (snd t) = key) (pending c)"

definition timers_wf :: "memory_cache \<Rightarrow> bool" where
  "timers_wf c =
     (distinct (map fst (pending c))
      \<and> (\<forall>t \<in> set (pending c). timeoutHandleForKey c (snd (snd t)) = Some (fst t))
      \<and> (\<forall>k h. timeoutHandleForKey c k = Some h \<longrightarrow> h < next_handle c)
      \<and> (\<forall>k k' h. timeoutHandleForKey c k = Some h \<and> timeoutHandleForKey c k' = Some h \<longrightarrow> k = k'))"

definition example_meta :: meta where
  "example_meta = [(''url'', JsonStr ''https://example.com/a''), (''status'', JsonNum 200)]"

definition slow_disk :: file_system_cache where
  "slow_disk = (new_FileSystemCache (Some 2000) 1000)\<lparr> fs_latency := [3, 4, 1, 2] \<rparr>"

definition content_addressed :: "(blob \<Rightarrow> string) \<Rightarrow> file_system_cache \<Rightarrow> bool" where
  "content_addressed ssri c = (\<forall>i b. fs_content c i = Some b \<longrightarrow> i = ssri b)"

section \<open>The cache-aware fetch\<close>

text \<open>
  \<^verbatim>\<open>getResponse(cache, requestArguments)\<close> works with any object that has \<^verbatim>\<open>get\<close>,
  \<^verbatim>\<open>set\<close> and \<^verbatim>\<open>remove\<close>: a store is a state and these three operations on it. The
  transport \<^verbatim>\<open>fetch\<close> is a parameter. The world of a call is the state of the store,
  the names locked through \<^verbatim>\<open>locko\<close>, and a log of what the call did, in order.
  \<^verbatim>\<open>await locko.lock(cacheKey)\<close> suspends the call while other tasks run; \<open>wait\<close> is
  what they do to the store in the meantime.
\<close>

record 's cache =
  cache_get :: "'s \<Rightarrow> string \<Rightarrow> entry option outcome"
  cache_set :: "'s \<Rightarrow> string \<Rightarrow> stream \<Rightarrow> meta \<Rightarrow> entry option outcome \<times> 's"
  cache_remove :: "'s \<Rightarrow> string \<Rightarrow> 's"

definition MemoryCache :: "memory_cache cache" where
  "MemoryCache =
     \<lparr> cache_get = (\<lambda>c key. Resolves (MemoryCache_get c key)),
       cache_set = MemoryCache_set,
       cache_remove = MemoryCache_remove \<rparr>"

definition FileSystemCache :: "(blob \<Rightarrow> string) \<Rightarrow> file_system_cache cache" where
  "FileSystemCache ssri =
     \<lparr> cache_get = FileSystemCache_get,
       cache_set = FileSystemCache_set ssri,
       cache_remove = FileSystemCache_remove \<rparr>"

datatype event =
    Get string
  | Lock string
  | Unlock string
  | Fetch resource jsval
  | Put string

record 's world =
  store :: 's
  held :: "string list"
  log :: "event list"

record fetch_response =
  res_url :: json
  res_status :: json
  res_statusText :: json
  res_headers_raw :: json
  res_size :: json
  res_timeout :: json
  res_counter :: json
  res_body :: stream

definition serializeMetaFromNodeFetchResponse :: "fetch_response \<Rightarrow> meta" where
  "serializeMetaFromNodeFetchResponse res =
     [(''url'', res_url res), (''status'', res_status res), (''statusText'', res_statusText res),
      (''headers'', res_headers_raw res), (''size'', res_size res), (''timeout'', res_timeout res),
      (''counter'', res_counter res)]"

text \<open>
  \<^verbatim>\<open>new NFCResponse(bodyStream, metaData, ejectFromCache, fromCache)\<close>; the closure
  \<^verbatim>\<open>() => cache.remove(cacheKey)\<close> is given by the key it removes.
\<close>

record NFCResponse = entry +
  ejectFromCache :: string
  fromCache :: bool

definition new_NFCResponse :: "entry \<Rightarrow> string \<Rightarrow> bool \<Rightarrow> NFCResponse" where
  "new_NFCResponse cached cacheKey from_cache =
     \<lparr> bodyStream = bodyStream cached, metaData = metaData cached,
       ejectFromCache = cacheKey, fromCache = from_cache \<rparr>"

definition logged :: "event \<Rightarrow> 's world \<Rightarrow> 's world" where
  "logged e w = w\<lparr> log := log w @ [e] \<rparr>"

text \<open>
  The body of the \<^verbatim>\<open>try\<close> block: the second look into the store, the transport, the
  write. \<^verbatim>\<open>newlyCachedData.bodyStream\<close> throws when \<^verbatim>\<open>set\<close> returned \<^verbatim>\<open>undefined\<close>.
\<close>

definition fetch_and_store ::
  "'s cache \<Rightarrow> (resource \<Rightarrow> jsval \<Rightarrow> fetch_response outcome) \<Rightarrow> resource \<times> jsval \<Rightarrow> string
     \<Rightarrow> 's world \<Rightarrow> NFCResponse option outcome \<times> 's world" where
  "fetch_and_store cache fetch requestArguments cacheKey w =
     (let w1 = logged (Get cacheKey) w in
      case cache_get cache (store w1) cacheKey of
        Never_settles \<Rightarrow> (Never_settles, w1)
      | Rejects e \<Rightarrow> (Rejects e, w1)
      | Resolves (Some cachedValue) \<Rightarrow> (Resolves (Some (new_NFCResponse cachedValue cacheKey True)), w1)
      | Resolves None \<Rightarrow>
          (let w2 = logged (Fetch (fst requestArguments) (snd requestArguments)) w1 in
           case fetch (fst requestArguments) (snd requestArguments) of
             Never_settles \<Rightarrow> (Never_settles, w2)
           | Rejects e \<Rightarrow> (Rejects e, w2)
           | Resolves fetchResponse \<Rightarrow>
               (let serializedMeta = serializeMetaFromNodeFetchResponse fetchResponse;
                    w3 = logged (Put cacheKey) w2;
                    (r, s) = cache_set cache (store w3) cacheKey (res_body fetchResponse) serializedMeta;
                    w4 = w3\<lparr> store := s \<rparr>
                in case r of
                     Never_settles \<Rightarrow> (Never_settles, w4)
                   | Rejects e \<Rightarrow> (Rejects e, w4)
                   | Resolves None \<Rightarrow> (Rejects TypeError, w4)
                   | Resolves (Some newlyCachedData) \<Rightarrow>
                       (Resolves (Some (new_NFCResponse newlyCachedData cacheKey False)), w4))))"

text \<open>
  \<^verbatim>\<open>getResponse\<close> from its second statement on, which is the same text in both files;
  \<open>onlyIfCached\<close> is the value of the call of \<^verbatim>\<open>hasOnlyWithCacheOption\<close>. The
  \<^verbatim>\<open>finally\<close> block runs when the \<^verbatim>\<open>try\<close> block returns or throws, not while a promise
  it awaits stays unsettled.
\<close>

definition getResponse_from ::
  "'s cache \<Rightarrow> (resource \<Rightarrow> jsval \<Rightarrow> fetch_response outcome) \<Rightarrow> ('s \<Rightarrow> 's) \<Rightarrow> resource \<times> jsval
     \<Rightarrow> string \<Rightarrow> bool \<Rightarrow> 's world \<Rightarrow> NFCResponse option outcome \<times> 's world" where
  "getResponse_from cache fetch wait requestArguments cacheKey onlyIfCached w =
     (let w1 = logged (Get cacheKey) w in
      case cache_get cache (store w1) cacheKey of
        Never_settles \<Rightarrow> (Never_settles, w1)
      | Rejects e \<Rightarrow> (Rejects e, w1)
      | Resolves (Some cachedValue) \<Rightarrow> (Resolves (Some (new_NFCResponse cachedValue cacheKey True)), w1)
      | Resolves None \<Rightarrow>
          if onlyIfCached then (Resolves None, w1)
          else
            (let w2 = logged (Lock cacheKey) (w1\<lparr> store := wait (store w1), held := cacheKey # held w1 \<rparr>);
                 (r, w3) = fetch_and_store cache fetch requestArguments cacheKey w2
             in if r = Never_settles then (r, w3)
                else (r, logged (Unlock cacheKey) (w3\<lparr> held := remove1 cacheKey (held w3) \<rparr>))))"

text \<open>
  \<^verbatim>\<open>getResponse\<close> of the CommonJS build: \<^verbatim>\<open>getCacheKey(...requestArguments)\<close> and
  \<^verbatim>\<open>hasOnlyWithCacheOption(...requestArguments)\<close> get the two arguments of the call
  (\<^verbatim>\<open>init\<close> is \<^verbatim>\<open>undefined\<close> when the caller gave one argument).
\<close>

definition getResponse_cjs ::
  "(string \<Rightarrow> string) \<Rightarrow> key_flags \<Rightarrow> 's cache \<Rightarrow> (resource \<Rightarrow> jsval \<Rightarrow> fetch_response outcome)
     \<Rightarrow> ('s \<Rightarrow> 's) \<Rightarrow> resource \<times> jsval \<Rightarrow> 's world \<Rightarrow> NFCResponse option outcome \<times> 's world" where
  "getResponse_cjs md5 key_flags cache fetch wait requestArguments w =
     (case getCacheKey_cjs md5 key_flags (fst requestArguments) (snd requestArguments) of
        Inl e \<Rightarrow> (Rejects e, w)
      | Inr cacheKey \<Rightarrow>
          getResponse_from cache fetch wait requestArguments cacheKey
            (hasOnlyWithCacheOption (fst requestArguments) (snd requestArguments)) w)"

text \<open>
  \<^verbatim>\<open>getResponse\<close> of the TypeScript source. \<^verbatim>\<open>requestArguments\<close> is the array of the
  arguments (\<^verbatim>\<open>(...args) => getResponse(cache, args)\<close>), and the source reads
  \<^verbatim>\<open>requestArguments.resource\<close> and \<^verbatim>\<open>requestArguments.init\<close>: an array has neither
  property, so both are \<^verbatim>\<open>undefined\<close>, for the key derivation and for
  \<^verbatim>\<open>hasOnlyWithCacheOption\<close>. The transport gets \<^verbatim>\<open>...requestArguments\<close>.
\<close>

definition getResponse ::
  "(string \<Rightarrow> string) \<Rightarrow> key_flags \<Rightarrow> 's cache \<Rightarrow> (resource \<Rightarrow> jsval \<Rightarrow> fetch_response outcome)
     \<Rightarrow> ('s \<Rightarrow> 's) \<Rightarrow> resource \<times> jsval \<Rightarrow> 's world \<Rightarrow> NFCResponse option outcome \<times> 's world" where
  "getResponse md5 key_flags cache fetch wait requestArguments w =
     (case getCacheKey md5 key_flags (NotRequest JUndefined) JUndefined of
        Inl e \<Rightarrow> (Rejects e, w)
      | Inr cacheKey \<Rightarrow>
          getResponse_from cache fetch wait requestArguments cacheKey
            (hasOnlyWithCacheOption (NotRequest JUndefined) JUndefined) w)"

section \<open>Notions and inputs used to state the properties of the fetch\<close>


definition example_args :: "resource \<times> jsval" where
  "example_args = (NotRequest (JStr ''https://example.com/a''), JUndefined)"

definition example_key :: string where
  \<open>example_key = ''[{"url":"https://example.com/a"},{"headers":{}},4]''\<close>

definition example_response :: fetch_response where
  "example_response =
     \<lparr> res_url = JsonStr ''https://example.com/a'', res_status = JsonNum 200,
       res_statusText = JsonStr ''OK'', res_headers_raw = JsonObj [], res_size = JsonNum 0,
       res_timeout = JsonNum 0, res_counter = JsonNum 0, res_body = Stream [''hel'', ''lo''] \<rparr>"

definition example_fetch :: "resource \<Rightarrow> jsval \<Rightarrow> fetch_response outcome" where
  "example_fetch r i = Resolves example_response"

definition failing_fetch :: "resource \<Rightarrow> jsval \<Rightarrow> fetch_response outcome" where
  "failing_fetch r i = Rejects (TransportError ''ECONNRESET'')"


definition memory_world :: "memory_cache world" where
  "memory_world = \<lparr> store = new_MemoryCache None 0, held = [], log = [] \<rparr>"


definition broken_response :: fetch_response where
  "broken_response = example_response\<lparr> res_body := Broken [''hel''] (StreamError ''aborted'') \<rparr>"

definition broken_fetch :: "resource \<Rightarrow> jsval \<Rightarrow> fetch_response outcome" where
  "broken_fetch r i = Resolves broken_response"

definition faulty_disk :: file_system_cache where
  "faulty_disk = (new_FileSystemCache None 0)\<lparr> fs_faults := [None, Some (StorageError ''EIO'')] \<rparr>"

definition disk_world :: "file_system_cache world" where
  "disk_world = \<lparr> store = faulty_disk, held = [], log = [] \<rparr>"

section \<open>Inputs used in the worked instances\<close>

definition plain_request :: "(string \<times> jsval) list" where
  "plain_request =
     [(''headers'', JHeaders [(''accept'', ''text/html'')]), (''url'', JStr ''https://example.com/a'')]"

definition method_off :: key_flags where
  "method_off = AList.update ''method'' (JBool False) DEFAULT_KEY_FLAGS"

definition headers_off :: key_flags where
  "headers_off = AList.update ''headers'' (JBool False) DEFAULT_KEY_FLAGS"

definition multipart_request :: "(string \<times> jsval) list" where
  "multipart_request =
     [(''headers'', JHeaders []), (''url'', JStr ''https://example.com/a''),
      (''body'', JFormData ''--b1''
          [(''_streams'', JArray [JStr ''----b1 x'', JFunction]), (''_boundary'', JStr ''--b1'')])]"

definition form_parts :: "part list" where
  "form_parts =
     [Text [Lit ''--'', Boundary, Lit '' Content-Disposition: form-data; name=a ''],
      Text [Lit ''hello''],
      NonText JFunction]"

definition form_others :: "(string \<times> jsval) list" where
  "form_others = [(''_overheadLength'', JNum 100), (''_streams'', JArray [])]"

section \<open>Properties of the key derivation\<close>

lemma get_prop_update:
  "get_prop (AList.update k v ps) g = (if g = k then v else get_prop ps g)"
  by (simp add: get_prop_def AList.update_conv')

lemma get_prop_delete:
  "get_prop (AList.delete k ps) g = (if g = k then JUndefined else get_prop ps g)"
  by (simp add: get_prop_def AList.delete_conv')

lemma ebind_simps [simp]:
  "ebind (Inl e) f = Inl e" "ebind (Inr x) f = f x"
  by (simp_all add: ebind_def)

text \<open>
  C9. In the TypeScript source a resource that is not a \<^verbatim>\<open>Request\<close> is wrapped as
  \<^verbatim>\<open>{ url: resource }\<close> and handed to \<^verbatim>\<open>getRequestCacheKey\<close>, whose first statement
  calls \<^verbatim>\<open>req.headers.entries()\<close>: the object has no \<^verbatim>\<open>headers\<close>, so the call throws a
  \<^verbatim>\<open>TypeError\<close> for every bare URL, whatever the flags and the second argument are.
  No key is returned.
\<close>

theorem getCacheKey_bare_url_raises:
  "getCacheKey md5 key_flags (NotRequest url) init = Inl TypeError"
  by (simp add: getCacheKey_def getRequestCacheKey_def get_prop_def Let_def)

text \<open>
  The CommonJS build keeps \<^verbatim>\<open>{ url: resource }\<close> as the resource part of the hashed
  structure and returns a key: the digest of the URL alone, the (empty) headers of
  \<^verbatim>\<open>init\<close> and the cache version.
\<close>

lemma getCacheKey_cjs_bare_url:
  "getCacheKey_cjs md5 key_flags (NotRequest (JStr url)) JUndefined =
     Inr (md5 (''[{'' @ json_quote ''url'' @ '':'' @ json_quote url @ ''},{'' @ json_quote ''headers'' @ '':{}},4]''))"
  apply (simp add: getCacheKey_cjs_def Let_def headers_or_empty_def js_member_def get_prop_def
      getHeadersCacheKeyJson_cjs_def Object_fromEntries_def getBodyCacheKeyJson_def digest_of_def
      CACHE_VERSION_def string_of_int_def)
  apply code_simp
  done

lemma getCacheKey_cjs_bare_url_example:
  \<open>getCacheKey_cjs id key_flags (NotRequest (JStr ''https://example.com/a'')) JUndefined =
     Inr ''[{"url":"https://example.com/a"},{"headers":{}},4]''\<close>
  by (simp add: getCacheKey_cjs_bare_url json_quote_def json_escape_char_def)

subsection \<open>The body normaliser and multipart bodies\<close>

lemma getFormDataCacheKey_FormData:
  assumes "get_prop props ''_streams'' = JArray streams"
  shows "getFormDataCacheKey (JFormData boundary props) =
           Inr (JObject (AList.update ''_streams''
                  (JArray (map (\<lambda>s. case s of JStr t \<Rightarrow> JStr (replace_all boundary t) | _ \<Rightarrow> s) streams))
                  (AList.delete ''_boundary'' props)))"
  using assms by (simp add: getFormDataCacheKey_def get_prop_delete)

lemma getBodyCacheKeyJson_FormData:
  "getBodyCacheKeyJson (JFormData boundary props) = getFormDataCacheKey (JFormData boundary props)"
  by (simp add: getBodyCacheKeyJson_def)

lemma getBodyCacheKeyJson_JObject:
  "getBodyCacheKeyJson (JObject ps) = Inl UnsupportedBodyType"
  by (simp add: getBodyCacheKeyJson_def)

lemma getBodyCacheKeyJson_twice_FormData:
  assumes "get_prop props ''_streams'' = JArray streams"
  shows "ebind (getBodyCacheKeyJson (JFormData boundary props)) getBodyCacheKeyJson = Inl UnsupportedBodyType"
  by (simp add: getBodyCacheKeyJson_FormData getFormDataCacheKey_FormData [OF assms]
      getBodyCacheKeyJson_JObject)

lemma getBodyCacheKeyJson_idem_falsy:
  "\<not> js_truthy b \<Longrightarrow> ebind (getBodyCacheKeyJson b) getBodyCacheKeyJson = getBodyCacheKeyJson b"
  by (simp add: getBodyCacheKeyJson_def)

lemma getBodyCacheKeyJson_idem_string:
  "ebind (getBodyCacheKeyJson (JStr s)) getBodyCacheKeyJson = getBodyCacheKeyJson (JStr s)"
  by (simp add: getBodyCacheKeyJson_def)

lemma getBodyCacheKeyJson_idem_params:
  "ebind (getBodyCacheKeyJson (JURLSearchParams s)) getBodyCacheKeyJson = getBodyCacheKeyJson (JURLSearchParams s)"
  by (simp add: getBodyCacheKeyJson_def)

lemma getBodyCacheKeyJson_idem_stream:
  "is_string (get_prop props ''path'') \<Longrightarrow>
   ebind (getBodyCacheKeyJson (JReadStream props)) getBodyCacheKeyJson = getBodyCacheKeyJson (JReadStream props)"
  by (simp add: getBodyCacheKeyJson_def)

lemma getBodyCacheKeyJson_idem_buffer:
  "ebind (getBodyCacheKeyJson (JBuffer s)) getBodyCacheKeyJson = getBodyCacheKeyJson (JBuffer s)"
  by (simp add: getBodyCacheKeyJson_def getFormDataCacheKey_def)

lemma getRequestCacheKey_multipart:
  assumes "flag_on key_flags ''body''" "get_prop req ''headers'' = JHeaders hs"
    "get_prop req ''body'' = JFormData boundary props" "get_prop props ''_streams'' = JArray streams"
  shows "\<exists>r. getRequestCacheKey key_flags req = Inr r \<and> (\<exists>ps. get_prop r ''body'' = JObject ps)"
  using assms
  by (simp add: getRequestCacheKey_def Let_def getBodyCacheKeyJson_FormData getFormDataCacheKey_FormData get_prop_def)

lemma getRequestCacheKey_cjs_multipart:
  assumes "flag_on key_flags ''body''" "get_prop req ''headers'' = JHeaders hs"
    "get_prop req ''body'' = JFormData boundary props" "get_prop props ''_streams'' = JArray streams"
  shows "\<exists>r. getRequestCacheKey_cjs key_flags req = Inr r \<and> (\<exists>ps. get_prop r ''body'' = JObject ps)"
  using assms
  by (simp add: getRequestCacheKey_cjs_def Let_def getBodyCacheKeyJson_FormData getFormDataCacheKey_FormData get_prop_def)

lemma getCacheKey_multipart:
  assumes "flag_on key_flags ''body''" "get_prop req ''headers'' = JHeaders hs"
    "get_prop req ''body'' = JFormData boundary props" "get_prop props ''_streams'' = JArray streams"
    "init \<noteq> JNull"
  shows "getCacheKey md5 key_flags (Request req) init = Inl UnsupportedBodyType"
proof -
  obtain r ps where r: "getRequestCacheKey key_flags req = Inr r" "get_prop r ''body'' = JObject ps"
    using getRequestCacheKey_multipart [OF assms(1-4)] by blast
  show ?thesis
    using assms(5) by (simp add: getCacheKey_def Let_def r getBodyCacheKeyJson_JObject)
qed

lemma getCacheKey_cjs_multipart:
  assumes "flag_on key_flags ''body''" "get_prop req ''headers'' = JHeaders hs"
    "get_prop req ''body'' = JFormData boundary props" "get_prop props ''_streams'' = JArray streams"
    "init \<noteq> JNull"
  shows "getCacheKey_cjs md5 key_flags (Request req) init = Inl UnsupportedBodyType"
proof -
  obtain r ps where r: "getRequestCacheKey_cjs key_flags req = Inr r" "get_prop r ''body'' = JObject ps"
    using getRequestCacheKey_cjs_multipart [OF assms(1-4)] by blast
  show ?thesis
    using assms(5) by (simp add: getCacheKey_cjs_def Let_def r getBodyCacheKeyJson_JObject)
qed

subsection \<open>Flags that are off\<close>

lemma flag_on_update:
  "flag_on (AList.update f v kf) g = (if g = f then js_truthy v else flag_on kf g)"
  by (simp add: flag_on_def get_prop_update)

lemma gated_update:
  "\<not> flag_on kf f \<Longrightarrow>
     (if flag_on kf g then get_prop (AList.update f a req) g else d) =
     (if flag_on kf g then get_prop req g else d)"
  by (auto simp: get_prop_update)

lemma gated_update_body:
  "\<not> flag_on kf f \<Longrightarrow>
     (if flag_on kf g then getBodyCacheKeyJson (get_prop (AList.update f a req) g) else d) =
     (if flag_on kf g then getBodyCacheKeyJson (get_prop req g) else d)"
  by (auto simp: get_prop_update)

lemma getRequestCacheKey_update_off:
  assumes "f \<noteq> ''headers''" "\<not> flag_on kf f"
  shows "getRequestCacheKey kf (AList.update f a req) = getRequestCacheKey kf req"
proof -
  have h: "get_prop (AList.update f a req) ''headers'' = get_prop req ''headers''"
    using assms(1) by (simp add: get_prop_update)
  show ?thesis
    unfolding getRequestCacheKey_def h
    by (simp only: gated_update [OF assms(2)] gated_update_body [OF assms(2)])
qed

lemma getRequestCacheKey_headers_off:
  assumes "\<not> flag_on kf ''headers''"
  shows "getRequestCacheKey kf (AList.update ''headers'' (JHeaders a) req) =
         getRequestCacheKey kf (AList.update ''headers'' (JHeaders b) req)"
proof -
  have h: "get_prop (AList.update ''headers'' (JHeaders x) req) ''headers'' = JHeaders x" for x
    by (simp add: get_prop_update)
  show ?thesis
    unfolding getRequestCacheKey_def h
    by (simp only: gated_update [OF assms] gated_update_body [OF assms] jsval.case assms
        if_False Let_def)
qed

lemma getCacheKey_request_field_off:
  assumes "\<not> flag_on kf f" "f = ''headers'' \<longrightarrow> (\<exists>ha hb. a = JHeaders ha \<and> b = JHeaders hb)"
  shows "getCacheKey md5 kf (Request (AList.update f a req)) init =
         getCacheKey md5 kf (Request (AList.update f b req)) init"
proof (cases "f = ''headers''")
  case True
  then obtain ha hb where "a = JHeaders ha" "b = JHeaders hb" using assms(2) by blast
  with True show ?thesis
    using getRequestCacheKey_headers_off [of kf ha req hb] assms(1)
    by (simp add: getCacheKey_def)
next
  case False
  then show ?thesis
    by (simp add: getCacheKey_def getRequestCacheKey_update_off [OF False assms(1)])
qed

lemma getCacheKey_init_headers_off:
  assumes "\<not> flag_on kf ''headers''"
  shows "getCacheKey md5 kf res (JObject (AList.update ''headers'' a ps)) =
         getCacheKey md5 kf res (JObject (AList.update ''headers'' b ps))"
  using assms by (simp add: getCacheKey_def Let_def)

lemma ebind_eq_Inr_iff: "ebind m f = Inr k \<longleftrightarrow> (\<exists>x. m = Inr x \<and> f x = Inr k)"
  by (cases m) simp_all

lemma digest_of_JArray: "digest_of md5 (JArray xs) = Inr (md5 (the (JSON_stringify (JArray xs))))"
  by (simp add: digest_of_def)

lemma getRequestCacheKey_InrD:
  assumes "getRequestCacheKey kf req = Inr r"
  shows "(\<exists>hs. get_prop req ''headers'' = JHeaders hs) \<and>
         (if flag_on kf ''body'' then getBodyCacheKeyJson (get_prop req ''body'') else Inr (JStr []))
           = Inr (get_prop r ''body'')"
proof (cases "get_prop req ''headers''")
  case (JHeaders hs)
  define B where "B = (if flag_on kf ''body'' then getBodyCacheKeyJson (get_prop req ''body'') else Inr (JStr []))"
  show ?thesis
  proof (cases B)
    case (Inl e)
    with assms JHeaders show ?thesis
      by (simp add: getRequestCacheKey_def B_def [symmetric] Let_def del: if_split)
  next
    case (Inr body)
    with assms JHeaders have "get_prop r ''body'' = body"
      by (auto simp add: getRequestCacheKey_def B_def [symmetric] Let_def get_prop_def)
    with Inr JHeaders show ?thesis by (simp add: B_def)
  qed
qed (use assms in \<open>simp_all add: getRequestCacheKey_def\<close>)

lemma getRequestCacheKey_InrI:
  assumes "get_prop req ''headers'' = JHeaders hs"
    and "(if flag_on kf ''body'' then getBodyCacheKeyJson (get_prop req ''body'') else Inr (JStr [])) = Inr body"
  shows "\<exists>r. getRequestCacheKey kf req = Inr r \<and> get_prop r ''body'' = body"
  unfolding getRequestCacheKey_def assms jsval.case Let_def ebind_simps
  by (simp add: get_prop_def)

lemma getBodyCacheKeyJson_empty_string: "getBodyCacheKeyJson (JStr []) = Inr (JStr [])"
  by (simp add: getBodyCacheKeyJson_def)

lemma getCacheKey_flag_off_no_new_error:
  assumes "getCacheKey md5 kf res init = Inr k"
  shows "\<exists>k'. getCacheKey md5 (AList.update f (JBool False) kf) res init = Inr k'"
proof (cases res)
  case (NotRequest url)
  with assms show ?thesis
    by (simp add: getCacheKey_def getRequestCacheKey_def get_prop_def Let_def)
next
  case (Request req)
  let ?kf' = "AList.update f (JBool False) kf"
  define I where "I = (if init = JUndefined then JObject [] else init)"
  from assms Request have a: "getCacheKey md5 kf (Request req) init = Inr k" by simp
  from a obtain r h rb ib where
    r: "getRequestCacheKey kf req = Inr r"
    and h: "(if flag_on kf ''headers'' then (if I = JNull then Inl TypeError
               else Inr (getHeadersCacheKeyJson kf (Object_entries (headers_or_empty I))))
             else Inr (JStr [])) = Inr h"
    and rb: "getBodyCacheKeyJson (get_prop r ''body'') = Inr rb"
    and ib: "getBodyCacheKeyJson (get_prop (AList.update ''headers'' h (Object_entries I)) ''body'') = Inr ib"
    unfolding getCacheKey_def Let_def I_def [symmetric] resource.case ebind_eq_Inr_iff by blast
  from getRequestCacheKey_InrD [OF r] obtain hs where
    hs: "get_prop req ''headers'' = JHeaders hs"
    and B: "(if flag_on kf ''body'' then getBodyCacheKeyJson (get_prop req ''body'') else Inr (JStr []))
              = Inr (get_prop r ''body'')"
    by blast
  have "\<exists>body'. (if flag_on ?kf' ''body'' then getBodyCacheKeyJson (get_prop req ''body'') else Inr (JStr []))
            = Inr body' \<and> (\<exists>x. getBodyCacheKeyJson body' = Inr x)"
    using B rb by (auto simp: flag_on_update getBodyCacheKeyJson_empty_string)
  then obtain body' x where
    B': "(if flag_on ?kf' ''body'' then getBodyCacheKeyJson (get_prop req ''body'') else Inr (JStr [])) = Inr body'"
    and x: "getBodyCacheKeyJson body' = Inr x" by blast
  from getRequestCacheKey_InrI [OF hs B'] obtain r' where
    r': "getRequestCacheKey ?kf' req = Inr r'" "get_prop r' ''body'' = body'" by blast
  have h': "\<exists>h'. (if flag_on ?kf' ''headers'' then (if I = JNull then Inl TypeError
               else Inr (getHeadersCacheKeyJson ?kf' (Object_entries (headers_or_empty I))))
             else Inr (JStr [])) = Inr h'"
    using h by (auto simp: flag_on_update split: if_splits)
  then obtain h' where h': "(if flag_on ?kf' ''headers'' then (if I = JNull then Inl TypeError
               else Inr (getHeadersCacheKeyJson ?kf' (Object_entries (headers_or_empty I))))
             else Inr (JStr [])) = Inr h'" by blast
  have ib': "getBodyCacheKeyJson (get_prop (AList.update ''headers'' h' (Object_entries I)) ''body'') = Inr ib"
    using ib by (simp add: get_prop_update)
  show ?thesis
    unfolding Request getCacheKey_def Let_def I_def [symmetric] resource.case r' h' ebind_simps x ib'
      digest_of_JArray by blast
qed

subsection \<open>Stripping the boundary\<close>

lemma replace_all_at_token:
  assumes "b \<noteq> []"
  shows "replace_all b (b @ s) = replace_all b s"
proof -
  obtain c cs where "b @ s = c # cs" using assms by (cases b) auto
  moreover have "take (length b) (b @ s) = b" "drop (length b) (b @ s) = s" by simp_all
  ultimately show ?thesis using assms by (metis replace_all.simps(2))
qed

lemma replace_all_empty_token: "replace_all [] s = s"
  by (induction s) simp_all

lemma replace_all_literal:
  assumes "list_all (\<lambda>i. \<not> matches_at b (drop i l @ rest)) [0..<length l]"
  shows "replace_all b (l @ rest) = l @ replace_all b rest"
  using assms
proof (induction l)
  case Nil
  then show ?case by simp
next
  case (Cons c l)
  from Cons.prems have all: "\<forall>i<Suc (length l). \<not> matches_at b (drop i (c # l) @ rest)"
    by (auto simp: list_all_iff simp del: upt_Suc)
  from all have 0: "\<not> matches_at b ((c # l) @ rest)" by (metis drop0 zero_less_Suc)
  have "\<forall>i<length l. \<not> matches_at b (drop i l @ rest)"
  proof (intro allI impI)
    fix i assume "i < length l"
    then have "\<not> matches_at b (drop (Suc i) (c # l) @ rest)" using all by blast
    then show "\<not> matches_at b (drop i l @ rest)" by simp
  qed
  then have "replace_all b (l @ rest) = l @ replace_all b rest"
    using Cons.IH by (simp add: list_all_iff)
  with 0 show ?case by (auto simp: matches_at_def)
qed

lemma replace_all_render:
  "token_only_at_marks b segs \<Longrightarrow> replace_all b (render_text b segs) = literal_text segs"
proof (induction b segs rule: token_only_at_marks.induct)
  case (1 b)
  then show ?case by (simp add: render_text_def literal_text_def)
next
  case (2 b segs)
  then have IH: "replace_all b (render_text b segs) = literal_text segs" by simp
  show ?case
  proof (cases "b = []")
    case True
    then show ?thesis by (simp add: replace_all_empty_token literal_text_def)
  next
    case False
    have "render_text b (Boundary # segs) = b @ render_text b segs" by (simp add: render_text_def)
    then show ?thesis using IH replace_all_at_token [OF False]
      by (simp add: literal_text_def render_text_def)
  qed
next
  case (3 b l segs)
  then have IH: "replace_all b (render_text b segs) = literal_text segs"
    and l: "list_all (\<lambda>i. \<not> matches_at b (drop i l @ render_text b segs)) [0..<length l]"
    by simp_all
  have "render_text b (Lit l # segs) = l @ render_text b segs" by (simp add: render_text_def)
  then show ?case using replace_all_literal [OF l] IH
    by (simp add: literal_text_def render_text_def)
qed

lemma strip_part:
  "part_ok b p \<Longrightarrow>
   (case render_part b p of JStr t \<Rightarrow> JStr (replace_all b t) | _ \<Rightarrow> render_part b p) = plain_part p"
  by (cases p) (auto simp: replace_all_render split: jsval.splits)

lemma getFormDataCacheKey_form_data:
  assumes "list_all (part_ok b) parts"
  shows "getFormDataCacheKey (form_data b others parts) =
     Inr (JObject (AList.update ''_streams'' (JArray (map plain_part parts))
            (AList.delete ''_boundary'' others)))"
proof -
  have m: "map ((\<lambda>s. case s of JStr t \<Rightarrow> JStr (replace_all b t) | _ \<Rightarrow> s) \<circ> render_part b) parts
        = map plain_part parts"
    using assms by (induction parts) (simp_all add: strip_part)
  have d: "AList.delete ''_boundary'' (AList.update ''_boundary'' (JStr b)
             (AList.update ''_streams'' X others))
           = AList.update ''_streams'' X (AList.delete ''_boundary'' others)" for X
    by (simp add: AList.delete_update_same AList.delete_update)
  show ?thesis
    unfolding form_data_def
    by (subst getFormDataCacheKey_FormData [where streams = "map (render_part b) parts"])
       (simp_all add: get_prop_update m d)
qed

lemma update_shadowed:
  "k \<noteq> k' \<Longrightarrow>
   AList.update k v (AList.update k' h (AList.update k w1 al)) =
   AList.update k v (AList.update k' h (AList.update k w2 al))"
  by (induction al) auto

lemma getCacheKey_init_body_cong:
  assumes "getBodyCacheKeyJson F1 = getBodyCacheKeyJson F2"
  shows "getCacheKey md5 kf res (JObject (AList.update ''body'' F1 init)) =
         getCacheKey md5 kf res (JObject (AList.update ''body'' F2 init))"
proof -
  have h: "headers_or_empty (JObject (AList.update ''body'' F init)) = headers_or_empty (JObject init)" for F
    by (simp add: headers_or_empty_def js_member_def get_prop_update)
  have u: "AList.update ''body'' v (AList.update ''headers'' hd (AList.update ''body'' F1 init)) =
           AList.update ''body'' v (AList.update ''headers'' hd (AList.update ''body'' F2 init))" for v hd
    by (rule update_shadowed) simp
  show ?thesis
    unfolding getCacheKey_def Let_def
    by (simp add: h get_prop_update assms u cong: if_cong)
qed

section \<open>The claims about key derivation\<close>

lemma getCacheKey_cjs_init_body_cong:
  assumes "getBodyCacheKeyJson F1 = getBodyCacheKeyJson F2"
  shows "getCacheKey_cjs md5 kf res (JObject (AList.update ''body'' F1 init)) =
         getCacheKey_cjs md5 kf res (JObject (AList.update ''body'' F2 init))"
proof -
  have h: "headers_or_empty (JObject (AList.update ''body'' F init)) = headers_or_empty (JObject init)" for F
    by (simp add: headers_or_empty_def js_member_def get_prop_update)
  have u: "AList.update ''body'' v (AList.update ''headers'' hd (AList.update ''body'' F1 init)) =
           AList.update ''body'' v (AList.update ''headers'' hd (AList.update ''body'' F2 init))" for v hd
    by (rule update_shadowed) simp
  show ?thesis
    unfolding getCacheKey_cjs_def Let_def
    by (simp add: h get_prop_update assms u cong: if_cong)
qed

lemma getBodyCacheKeyJson_form_data:
  "getBodyCacheKeyJson (form_data b others parts) = getFormDataCacheKey (form_data b others parts)"
  by (simp add: form_data_def getBodyCacheKeyJson_FormData)

text \<open>
  C5. \<^verbatim>\<open>key_flags = Object.assign(DEFAULT_KEY_FLAGS, options.keyFlags)\<close> writes the
  overrides into the object \<^verbatim>\<open>DEFAULT_KEY_FLAGS\<close> itself. After one construction with
  \<^verbatim>\<open>{ keyFlags: { method: false } }\<close> and a second one without options, the active
  flags still have \<^verbatim>\<open>method: false\<close>: they are not the default set with every flag
  true.
\<close>

theorem createFetchWithCache_keeps_earlier_overrides:
  "map_sum id active_key_flags
     (ebind (createFetchWithCache module_init (JObject [(''keyFlags'', JObject [(''method'', JBool False)])]))
        (\<lambda>st. createFetchWithCache st JUndefined))
   = Inr (AList.update ''method'' (JBool False) DEFAULT_KEY_FLAGS)
   \<and> AList.update ''method'' (JBool False) DEFAULT_KEY_FLAGS \<noteq> DEFAULT_KEY_FLAGS"
  by (simp add: createFetchWithCache_def module_init_def Object_assign_def js_member_def get_prop_def
      active_key_flags_def DEFAULT_KEY_FLAGS_def)

text \<open>
  C6. With the \<^verbatim>\<open>method\<close> flag off, two calls that differ in \<^verbatim>\<open>init.method\<close> only get
  different keys: \<^verbatim>\<open>{...init}\<close> copies every field of \<^verbatim>\<open>init\<close> but \<^verbatim>\<open>headers\<close> into
  the hashed structure whatever its flag is, in the TypeScript source and in the CommonJS
  build. The fields of the request itself are replaced by the empty string when their
  flags are off, and so is \<^verbatim>\<open>init.headers\<close> in the TypeScript source (lemmas
  \<open>getCacheKey_request_field_off\<close> and \<open>getCacheKey_init_headers_off\<close>).
\<close>

theorem getCacheKey_init_field_ignores_flag:
  \<open>\<not> flag_on method_off ''method''
   \<and> getCacheKey id method_off (Request plain_request) (JObject [(''method'', JStr ''GET'')])
     = Inr ''[{"headers":{"accept":"text/html"},"method":"","url":"https://example.com/a"},{"method":"GET","headers":{}},4]''
   \<and> getCacheKey id method_off (Request plain_request) (JObject [(''method'', JStr ''POST'')])
     = Inr ''[{"headers":{"accept":"text/html"},"method":"","url":"https://example.com/a"},{"method":"POST","headers":{}},4]''
   \<and> getCacheKey id method_off (Request plain_request) (JObject [(''method'', JStr ''GET'')])
     \<noteq> getCacheKey id method_off (Request plain_request) (JObject [(''method'', JStr ''POST'')])
   \<and> getCacheKey_cjs id method_off (Request plain_request) (JObject [(''method'', JStr ''GET'')])
     \<noteq> getCacheKey_cjs id method_off (Request plain_request) (JObject [(''method'', JStr ''POST'')])\<close>
  by code_simp

text \<open>
  C8. Two form bodies with the same parts and the same other properties, whose boundary
  tokens are strings of dashes and digits that stand only at their marks, are
  normalised to the same object: the \<^verbatim>\<open>_boundary\<close> property is gone and every text
  part is its literal text. Passed as \<^verbatim>\<open>init.body\<close>, they give the same result of the
  key derivation.
\<close>

theorem getCacheKey_multipart_boundary_invariant:
  assumes "boundary_token b1" and "boundary_token b2"
    and "list_all (part_ok b1) parts" and "list_all (part_ok b2) parts"
  shows "getFormDataCacheKey (form_data b1 others parts) =
           Inr (JObject (AList.update ''_streams'' (JArray (map plain_part parts))
                  (AList.delete ''_boundary'' others)))
       \<and> getFormDataCacheKey (form_data b2 others parts) = getFormDataCacheKey (form_data b1 others parts)
       \<and> getCacheKey hash kf res (JObject (AList.update ''body'' (form_data b1 others parts) init)) =
         getCacheKey hash kf res (JObject (AList.update ''body'' (form_data b2 others parts) init))
       \<and> getCacheKey_cjs hash kf res (JObject (AList.update ''body'' (form_data b1 others parts) init)) =
         getCacheKey_cjs hash kf res (JObject (AList.update ''body'' (form_data b2 others parts) init))"
proof -
  have e: "getBodyCacheKeyJson (form_data b1 others parts) = getBodyCacheKeyJson (form_data b2 others parts)"
    by (simp add: getBodyCacheKeyJson_form_data getFormDataCacheKey_form_data assms(3,4))
  show ?thesis
    using getCacheKey_init_body_cong [OF e] getCacheKey_cjs_init_body_cong [OF e]
    by (simp add: getFormDataCacheKey_form_data assms(3,4))
qed

theorem getCacheKey_multipart_boundary_invariant_witness:
  \<open>boundary_token ''----1111'' \<and> boundary_token ''----2222''
   \<and> list_all (part_ok ''----1111'') form_parts \<and> list_all (part_ok ''----2222'') form_parts
   \<and> form_data ''----1111'' form_others form_parts \<noteq> form_data ''----2222'' form_others form_parts
   \<and> getCacheKey_cjs id DEFAULT_KEY_FLAGS (NotRequest (JStr ''https://example.com/a''))
        (JObject (AList.update ''body'' (form_data ''----1111'' form_others form_parts) [(''method'', JStr ''POST'')]))
     = getCacheKey_cjs id DEFAULT_KEY_FLAGS (NotRequest (JStr ''https://example.com/a''))
        (JObject (AList.update ''body'' (form_data ''----2222'' form_others form_parts) [(''method'', JStr ''POST'')]))
   \<and> getCacheKey_cjs id DEFAULT_KEY_FLAGS (NotRequest (JStr ''https://example.com/a''))
        (JObject (AList.update ''body'' (form_data ''----1111'' form_others form_parts) [(''method'', JStr ''POST'')]))
     = Inr ''[{"url":"https://example.com/a"},{"method":"POST","body":{"_overheadLength":100,"_streams":["-- Content-Disposition: form-data; name=a ","hello",null]},"headers":{}},4]''
   \<and> getCacheKey id DEFAULT_KEY_FLAGS (Request plain_request)
        (JObject (AList.update ''body'' (form_data ''----1111'' form_others form_parts) [(''method'', JStr ''POST'')]))
     = getCacheKey id DEFAULT_KEY_FLAGS (Request plain_request)
        (JObject (AList.update ''body'' (form_data ''----2222'' form_others form_parts) [(''method'', JStr ''POST'')]))
   \<and> getCacheKey id DEFAULT_KEY_FLAGS (Request plain_request)
        (JObject (AList.update ''body'' (form_data ''----1111'' form_others form_parts) [(''method'', JStr ''POST'')]))
     = Inr ''[{"headers":{"accept":"text/html"},"url":"https://example.com/a"},{"method":"POST","body":{"_overheadLength":100,"_streams":["-- Content-Disposition: form-data; name=a ","hello",null]},"headers":{}},4]''\<close>
proof -
  have t1: "boundary_token ''----1111''" and t2: "boundary_token ''----2222''" by code_simp+
  have 1: "list_all (part_ok ''----1111'') form_parts" by code_simp
  have 2: "list_all (part_ok ''----2222'') form_parts" by code_simp
  have 3: "form_data ''----1111'' form_others form_parts \<noteq> form_data ''----2222'' form_others form_parts"
    by (simp add: form_data_def)
  have 4: \<open>getCacheKey_cjs id DEFAULT_KEY_FLAGS (NotRequest (JStr ''https://example.com/a''))
        (JObject (AList.update ''body'' (form_data ''----1111'' form_others form_parts) [(''method'', JStr ''POST'')]))
     = Inr ''[{"url":"https://example.com/a"},{"method":"POST","body":{"_overheadLength":100,"_streams":["-- Content-Disposition: form-data; name=a ","hello",null]},"headers":{}},4]''\<close>
    by code_simp
  have 5: \<open>getCacheKey id DEFAULT_KEY_FLAGS (Request plain_request)
        (JObject (AList.update ''body'' (form_data ''----1111'' form_others form_parts) [(''method'', JStr ''POST'')]))
     = Inr ''[{"headers":{"accept":"text/html"},"url":"https://example.com/a"},{"method":"POST","body":{"_overheadLength":100,"_streams":["-- Content-Disposition: form-data; name=a ","hello",null]},"headers":{}},4]''\<close>
    by code_simp
  from getCacheKey_multipart_boundary_invariant [OF t1 t2 1 2, where hash = id and kf = DEFAULT_KEY_FLAGS
      and res = "NotRequest (JStr ''https://example.com/a'')" and others = form_others
      and init = "[(''method'', JStr ''POST'')]"]
    getCacheKey_multipart_boundary_invariant [OF t1 t2 1 2, where hash = id and kf = DEFAULT_KEY_FLAGS
      and res = "Request plain_request" and others = form_others
      and init = "[(''method'', JStr ''POST'')]"] t1 t2 1 2 3 4 5
  show ?thesis by blast
qed

text \<open>
  C10, as amended. With the \<^verbatim>\<open>body\<close> flag on (the default) and an \<^verbatim>\<open>init\<close> that
  is not \<^verbatim>\<open>null\<close>, the key derivation of a structured request whose body is a
  multipart form raises \<^verbatim>\<open>UnsupportedBodyType\<close>, in the TypeScript source and in the
  CommonJS build: the normaliser turns the form into a plain object and rejects that
  object when it is applied again. Applied twice, the normaliser gives what it gives
  applied once on \<^verbatim>\<open>null\<close>, \<^verbatim>\<open>undefined\<close>, strings, URL parameters, buffers and
  file streams with a string path.
\<close>

theorem getCacheKey_multipart_request_unsupported:
  assumes "flag_on key_flags ''body''"
    and "get_prop req ''headers'' = JHeaders hs"
    and "get_prop req ''body'' = JFormData boundary props"
    and "get_prop props ''_streams'' = JArray streams"
    and "init \<noteq> JNull"
  shows "getCacheKey hash key_flags (Request req) init = Inl UnsupportedBodyType
       \<and> getCacheKey_cjs hash key_flags (Request req) init = Inl UnsupportedBodyType
       \<and> (\<exists>ps. getBodyCacheKeyJson (JFormData boundary props) = Inr (JObject ps))
       \<and> ebind (getBodyCacheKeyJson (JFormData boundary props)) getBodyCacheKeyJson = Inl UnsupportedBodyType
       \<and> ebind (getBodyCacheKeyJson JNull) getBodyCacheKeyJson = getBodyCacheKeyJson JNull
       \<and> ebind (getBodyCacheKeyJson JUndefined) getBodyCacheKeyJson = getBodyCacheKeyJson JUndefined
       \<and> ebind (getBodyCacheKeyJson (JStr s)) getBodyCacheKeyJson = getBodyCacheKeyJson (JStr s)
       \<and> ebind (getBodyCacheKeyJson (JURLSearchParams s)) getBodyCacheKeyJson = getBodyCacheKeyJson (JURLSearchParams s)
       \<and> (is_string (get_prop rs ''path'') \<longrightarrow>
            ebind (getBodyCacheKeyJson (JReadStream rs)) getBodyCacheKeyJson = getBodyCacheKeyJson (JReadStream rs))
       \<and> ebind (getBodyCacheKeyJson (JBuffer s)) getBodyCacheKeyJson = getBodyCacheKeyJson (JBuffer s)"
proof -
  have "\<exists>ps. getBodyCacheKeyJson (JFormData boundary props) = Inr (JObject ps)"
    by (simp add: getBodyCacheKeyJson_FormData getFormDataCacheKey_FormData [OF assms(4)])
  then show ?thesis
    using getCacheKey_multipart [OF assms] getCacheKey_cjs_multipart [OF assms]
      getBodyCacheKeyJson_twice_FormData [OF assms(4)] getBodyCacheKeyJson_idem_stream [of rs]
      getBodyCacheKeyJson_idem_falsy [of JNull] getBodyCacheKeyJson_idem_falsy [of JUndefined]
      getBodyCacheKeyJson_idem_string getBodyCacheKeyJson_idem_params getBodyCacheKeyJson_idem_buffer
    by simp
qed

theorem getCacheKey_multipart_request_unsupported_witness:
  "flag_on DEFAULT_KEY_FLAGS ''body''
   \<and> get_prop multipart_request ''headers'' = JHeaders []
   \<and> getCacheKey id DEFAULT_KEY_FLAGS (Request multipart_request) JUndefined = Inl UnsupportedBodyType
   \<and> getCacheKey_cjs id DEFAULT_KEY_FLAGS (Request multipart_request) JUndefined = Inl UnsupportedBodyType
   \<and> is_string (get_prop [(''path'', JStr ''/tmp/upload.bin'')] ''path'')
   \<and> ebind (getBodyCacheKeyJson (JReadStream [(''path'', JStr ''/tmp/upload.bin'')])) getBodyCacheKeyJson
       = Inr (JStr ''/tmp/upload.bin'')"
proof -
  have 6: "is_string (get_prop [(''path'', JStr ''/tmp/upload.bin'')] ''path'')"
    by (simp add: get_prop_def)
  have 7: "getBodyCacheKeyJson (JReadStream [(''path'', JStr ''/tmp/upload.bin'')]) = Inr (JStr ''/tmp/upload.bin'')"
    by (simp add: getBodyCacheKeyJson_def get_prop_def)
  have 1: "flag_on DEFAULT_KEY_FLAGS ''body''"
    by (simp add: flag_on_def DEFAULT_KEY_FLAGS_def get_prop_def)
  have 2: "get_prop multipart_request ''headers'' = JHeaders []"
    by (simp add: multipart_request_def get_prop_def)
  have 3: "get_prop multipart_request ''body'' = JFormData ''--b1''
          [(''_streams'', JArray [JStr ''----b1 x'', JFunction]), (''_boundary'', JStr ''--b1'')]"
    by (simp add: multipart_request_def get_prop_def)
  have 4: "get_prop [(''_streams'', JArray [JStr ''----b1 x'', JFunction]), (''_boundary'', JStr ''--b1'')]
             ''_streams'' = JArray [JStr ''----b1 x'', JFunction]"
    by (simp add: get_prop_def)
  have 5: "JUndefined \<noteq> JNull" by simp
  show ?thesis
    using getCacheKey_multipart_request_unsupported [OF 1 2 3 4 5, where hash = id
        and rs = "[(''path'', JStr ''/tmp/upload.bin'')]"] 1 2 6 7 by simp
qed

text \<open>
  The claim as stated fails when the \<^verbatim>\<open>body\<close> flag is off: the body of the request is
  replaced by the empty string before either normalisation, and a key is returned.
\<close>

theorem getCacheKey_multipart_request_body_flag_off:
  \<open>getCacheKey id (AList.update ''body'' (JBool False) DEFAULT_KEY_FLAGS) (Request multipart_request) JUndefined
     = Inr ''[{"headers":{},"url":"https://example.com/a","body":""},{"headers":{}},4]''\<close>
  by code_simp

section \<open>Properties of the stores\<close>

lemma MemoryCache_set_get:
  "MemoryCache_set c key (Stream chunks) m = (r, c') \<Longrightarrow>
     r = Resolves (Some \<lparr> bodyStream = Readable_from (concat chunks), metaData = m \<rparr>)
     \<and> MemoryCache_get c' key = Some \<lparr> bodyStream = Readable_from (concat chunks), metaData = m \<rparr>"
  by (auto simp: MemoryCache_set_def streamToBuffer_def MemoryCache_get_def Let_def
      KeyTimeout_updateTimeout_def KeyTimeout_clearTimeout_def js_setTimeout_def js_clearTimeout_def
      split: option.splits prod.splits)

lemma keys_differ: "key @ ''meta'' \<noteq> key @ ''body''"
  by simp

lemma strip_update_bsi:
  "strip_internal (AList.update ''bodyStreamIntegrity'' v m) = strip_internal m"
  by (simp add: strip_internal_def AList.delete_update_same)

lemma strip_update_empty:
  "strip_internal (AList.update ''empty'' v m) = strip_internal m"
  by (simp add: strip_internal_def AList.delete_update_same AList.delete_update
      AList.delete_twist [of "''empty''"])

lemma strip_update_expiration:
  "strip_internal (AList.update ''expiration'' v m) = strip_internal m"
  by (simp add: strip_internal_def AList.delete_update_same AList.delete_update
      AList.delete_twist [of "''expiration''"])

lemma map_of_update_other:
  "k' \<noteq> k \<Longrightarrow> map_of (AList.update k v m) k' = map_of m k'"
  by (simp add: AList.update_conv')

lemma disk_wait_fields [simp]:
  "fs_ttl (disk_wait c) = fs_ttl c"
  "fs_index (disk_wait c) = fs_index c"
  "fs_content (disk_wait c) = fs_content c"
  "fs_faults (disk_wait c) = fs_faults c"
  "fs_latency (disk_wait c) = tl (fs_latency c)"
  by (simp_all add: disk_wait_def)

lemma fs_now_disk_wait:
  "fs_now (disk_wait c) = fs_now c + int (case fs_latency c of [] \<Rightarrow> 0 | d # ds \<Rightarrow> d)"
  by (simp add: disk_wait_def)

lemma fs_now_le_disk_wait: "fs_now c \<le> fs_now (disk_wait c)"
  by (simp add: fs_now_disk_wait)

lemma four_waits:
  "(case l of [] \<Rightarrow> 0 | d # ds \<Rightarrow> d) + (case tl l of [] \<Rightarrow> 0 | d # ds \<Rightarrow> d)
     + (case tl (tl l) of [] \<Rightarrow> 0 | d # ds \<Rightarrow> d) + (case tl (tl (tl l)) of [] \<Rightarrow> 0 | d # ds \<Rightarrow> d)
   = sum_list (take 4 l)" for l :: "nat list"
  by (auto simp: numeral_eq_Suc split: list.splits)

lemma cacache_put_ok:
  assumes "case fs_faults c of Some e # rest \<Rightarrow> False | _ \<Rightarrow> True"
  shows "cacache_put ssri c key data =
     (Inr (ssri data),
      (disk_wait c)\<lparr> fs_index := (fs_index c)(key \<mapsto> ssri data),
         fs_content := (fs_content c)(ssri data \<mapsto> data),
         fs_faults := tl (fs_faults c) \<rparr>)"
  using assms by (auto simp: cacache_put_def Let_def split: list.splits option.splits)

lemma writes_succeed_first:
  "writes_succeed c \<Longrightarrow> (case fs_faults c of Some e # rest \<Rightarrow> False | _ \<Rightarrow> True)"
  by (auto simp: writes_succeed_def split: list.splits option.splits)

lemma writes_succeed_second:
  "writes_succeed c \<Longrightarrow> (case tl (fs_faults c) of Some e # rest \<Rightarrow> False | _ \<Rightarrow> True)"
  by (cases "fs_faults c") (auto simp: writes_succeed_def numeral_2_eq_2 split: list.splits option.splits)

text \<open>What get finds after the metadata document has just been written.\<close>

lemma FileSystemCache_get_after_put:
  assumes "fs_index c (key @ ''meta'') = Some i" "fs_content c i = Some (Document d)"
  shows "FileSystemCache_get c key =
     (if expired (map_of d ''expiration'') (fs_now c) then Resolves None
      else Resolves (Some
         \<lparr> bodyStream = (if (case map_of d ''empty'' of None \<Rightarrow> False | Some e \<Rightarrow> json_truthy e)
                          then Readable_from []
                          else cacache_get_stream_byDigest c (map_of d ''bodyStreamIntegrity'')),
           metaData = strip_internal d \<rparr>))"
  using assms by (simp add: FileSystemCache_get_def getBodyAndMetaKeys_def Let_def strip_internal_def)

lemma FileSystemCache_set_writes:
  assumes ok: "writes_succeed c" and apart: "tokens_apart ssri"
  shows "\<exists>c'. FileSystemCache_set ssri c key (Stream chunks) m = (FileSystemCache_get c' key, c')
          \<and> fs_index c' (key @ ''meta'') = Some (ssri (Document (meta_document ssri c (concat chunks) m)))
          \<and> fs_content c' (ssri (Document (meta_document ssri c (concat chunks) m)))
               = Some (Document (meta_document ssri c (concat chunks) m))
          \<and> (concat chunks \<noteq> [] \<longrightarrow>
               fs_content c' (ssri (Bytes (concat chunks))) = Some (Bytes (concat chunks)))
          \<and> fs_now c' = fs_now c + set_duration c \<and> fs_ttl c' = fs_ttl c"
proof (cases "concat chunks = []")
  case True
  let ?d = "meta_document ssri c (concat chunks) m"
  define c1 where "c1 = (disk_wait c)\<lparr> fs_faults := tl (fs_faults c) \<rparr>"
  define c2 where "c2 = (disk_wait c1)\<lparr> fs_index := (fs_index c1)(key @ ''meta'' \<mapsto> ssri (Document ?d)),
         fs_content := (fs_content c1)(ssri (Document ?d) \<mapsto> Document ?d), fs_faults := tl (fs_faults c1) \<rparr>"
  define c3 where "c3 = disk_wait (disk_wait c2)"
  have p1: "cacache_put_stream ssri c (key @ ''body'') (Stream chunks) = (Rejects ENODATA, c1)"
    using writes_succeed_first [OF ok] True
    by (auto simp: cacache_put_stream_def c1_def split: list.splits option.splits)
  have f1: "case fs_faults c1 of Some e # rest \<Rightarrow> False | _ \<Rightarrow> True"
    using writes_succeed_second [OF ok] by (simp add: c1_def)
  have p2: "cacache_put ssri c1 (key @ ''meta'') (Document ?d) = (Inr (ssri (Document ?d)), c2)"
    using cacache_put_ok [OF f1] by (simp add: c2_def)
  have "FileSystemCache_set ssri c key (Stream chunks) m = (FileSystemCache_get c3 key, c3)"
    using True p2
    by (simp add: FileSystemCache_set_def getBodyAndMetaKeys_def Let_def p1
        meta_document_def meta_copy_def c3_def)
  moreover have "fs_index c3 (key @ ''meta'') = Some (ssri (Document ?d))"
    "fs_content c3 (ssri (Document ?d)) = Some (Document ?d)"
    "fs_ttl c3 = fs_ttl c"
    by (simp_all add: c3_def c2_def c1_def)
  moreover have "fs_now c3 = fs_now c + set_duration c"
    using four_waits [of "fs_latency c"]
    by (simp add: c3_def c2_def c1_def fs_now_disk_wait set_duration_def)
  ultimately show ?thesis using True by blast
next
  case False
  let ?b = "Bytes (concat chunks)"
  let ?d = "meta_document ssri c (concat chunks) m"
  define c1 where "c1 = (disk_wait c)\<lparr> fs_index := (fs_index c)(key @ ''body'' \<mapsto> ssri ?b),
         fs_content := (fs_content c)(ssri ?b \<mapsto> ?b), fs_faults := tl (fs_faults c) \<rparr>"
  define c2 where "c2 = (disk_wait c1)\<lparr> fs_index := (fs_index c1)(key @ ''meta'' \<mapsto> ssri (Document ?d)),
         fs_content := (fs_content c1)(ssri (Document ?d) \<mapsto> Document ?d), fs_faults := tl (fs_faults c1) \<rparr>"
  define c3 where "c3 = disk_wait (disk_wait c2)"
  have p1: "cacache_put_stream ssri c (key @ ''body'') (Stream chunks) = (Resolves (ssri ?b), c1)"
    using writes_succeed_first [OF ok] False cacache_put_ok [OF writes_succeed_first [OF ok]]
    by (auto simp: cacache_put_stream_def c1_def split: list.splits option.splits)
  have f1: "case fs_faults c1 of Some e # rest \<Rightarrow> False | _ \<Rightarrow> True"
    using writes_succeed_second [OF ok] by (simp add: c1_def)
  have p2: "cacache_put ssri c1 (key @ ''meta'') (Document ?d) = (Inr (ssri (Document ?d)), c2)"
    using cacache_put_ok [OF f1] by (simp add: c2_def)
  have ne: "ssri ?b \<noteq> ssri (Document ?d)"
    using apart by (simp add: tokens_apart_def)
  have md: "?d = AList.update ''bodyStreamIntegrity'' (JsonStr (ssri ?b)) (meta_copy c m)"
    using False by (simp only: meta_document_def if_False)
  have "FileSystemCache_set ssri c key (Stream chunks) m = (FileSystemCache_get c3 key, c3)"
    using p2 unfolding md
    by (simp add: FileSystemCache_set_def getBodyAndMetaKeys_def Let_def p1 meta_copy_def c3_def)
  moreover have "fs_index c3 (key @ ''meta'') = Some (ssri (Document ?d))"
    "fs_content c3 (ssri (Document ?d)) = Some (Document ?d)"
    "fs_content c3 (ssri ?b) = Some ?b"
    "fs_ttl c3 = fs_ttl c"
    using ne by (simp_all add: c3_def c2_def c1_def)
  moreover have "fs_now c3 = fs_now c + set_duration c"
    using four_waits [of "fs_latency c"]
    by (simp add: c3_def c2_def c1_def fs_now_disk_wait set_duration_def)
  ultimately show ?thesis by blast
qed

lemma strip_meta_document: "strip_internal (meta_document ssri c body m) = strip_internal m"
  by (cases "fs_ttl c")
     (simp_all add: meta_document_def meta_copy_def strip_update_bsi strip_update_empty
        strip_update_expiration)

lemma strip_internal_id:
  assumes "map_of m ''empty'' = None" "map_of m ''expiration'' = None"
    "map_of m ''bodyStreamIntegrity'' = None"
  shows "strip_internal m = m"
  using assms by (simp add: strip_internal_def map_of_eq_None_iff)

lemma expiration_meta_document:
  "map_of (meta_document ssri c body m) ''expiration'' =
     (case fs_ttl c of Some ttl \<Rightarrow> Some (JsonNum (fs_now c + ttl)) | None \<Rightarrow> map_of m ''expiration'')"
  by (cases "fs_ttl c") (simp_all add: meta_document_def meta_copy_def AList.update_conv')

lemma empty_meta_document:
  "map_of (meta_document ssri c body m) ''empty'' =
     (if body = [] then Some (JsonBool True) else map_of m ''empty'')"
  by (cases "fs_ttl c") (simp_all add: meta_document_def meta_copy_def AList.update_conv')

lemma integrity_meta_document:
  "body \<noteq> [] \<Longrightarrow>
   map_of (meta_document ssri c body m) ''bodyStreamIntegrity'' = Some (JsonStr (ssri (Bytes body)))"
  by (simp add: meta_document_def AList.update_conv')

text \<open>What a later get returns, at any reading of the clock.\<close>

lemma FileSystemCache_get_written:
  assumes i: "fs_index c' (key @ ''meta'') = Some (ssri (Document (meta_document ssri c body m)))"
    and d: "fs_content c' (ssri (Document (meta_document ssri c body m)))
               = Some (Document (meta_document ssri c body m))"
    and b: "body \<noteq> [] \<longrightarrow> fs_content c' (ssri (Bytes body)) = Some (Bytes body)"
    and e: "body \<noteq> [] \<longrightarrow> map_of m ''empty'' = None"
  shows "FileSystemCache_get (c'\<lparr> fs_now := n \<rparr>) key =
     (if expired (case fs_ttl c of Some ttl \<Rightarrow> Some (JsonNum (fs_now c + ttl)) | None \<Rightarrow> map_of m ''expiration'') n
      then Resolves None
      else Resolves (Some \<lparr> bodyStream = Readable_from body, metaData = strip_internal m \<rparr>))"
proof -
  have i': "fs_index (c'\<lparr> fs_now := n \<rparr>) (key @ ''meta'') = Some (ssri (Document (meta_document ssri c body m)))"
    and d': "fs_content (c'\<lparr> fs_now := n \<rparr>) (ssri (Document (meta_document ssri c body m)))
               = Some (Document (meta_document ssri c body m))"
    using i d by simp_all
  show ?thesis
    using b e
    by (simp add: FileSystemCache_get_after_put [OF i' d'] expiration_meta_document
        empty_meta_document integrity_meta_document strip_meta_document
        cacache_get_stream_byDigest_def)
qed

lemma expired_later: "expired e n \<Longrightarrow> n \<le> n' \<Longrightarrow> expired e n'"
  by (auto simp: expired_def split: option.splits)

lemma not_expired_ttl: "\<not> expired (Some (JsonNum (now + t))) (now + d) \<longleftrightarrow> now + t = 0 \<or> d \<le> t"
  by (auto simp: expired_def)

lemma MemoryCache_set_no_ttl:
  assumes "mc_ttl c = None" "pending c = []"
  shows "MemoryCache_get (elapse dt (snd (MemoryCache_set c k (Stream chunks) m))) k
           = Some \<lparr> bodyStream = Readable_from (concat chunks), metaData = m \<rparr>"
  using assms
  by (simp add: MemoryCache_set_def streamToBuffer_def Let_def elapse_def MemoryCache_get_def)

subsection \<open>Timers and expiry\<close>

lemma timers_wf_new: "timers_wf (new_MemoryCache ttl now)"
  by (simp add: timers_wf_def new_MemoryCache_def)

lemma KeyTimeout_clearTimeout_fields [simp]:
  "mc_cache (KeyTimeout_clearTimeout c k) = mc_cache c"
  "timeoutHandleForKey (KeyTimeout_clearTimeout c k) = timeoutHandleForKey c"
  "next_handle (KeyTimeout_clearTimeout c k) = next_handle c"
  "mc_now (KeyTimeout_clearTimeout c k) = mc_now c"
  "mc_ttl (KeyTimeout_clearTimeout c k) = mc_ttl c"
  by (simp_all add: KeyTimeout_clearTimeout_def js_clearTimeout_def split: option.splits)

lemma pending_clearTimeout:
  "pending (KeyTimeout_clearTimeout c k) =
     (case timeoutHandleForKey c k of None \<Rightarrow> pending c
      | Some n \<Rightarrow> filter (\<lambda>t. fst t \<noteq> n) (pending c))"
  by (simp add: KeyTimeout_clearTimeout_def js_clearTimeout_def case_prod_unfold split: option.splits)

lemma set_pending_clearTimeout: "set (pending (KeyTimeout_clearTimeout c k)) \<subseteq> set (pending c)"
  by (auto simp: pending_clearTimeout split: option.splits)

lemma clearTimeout_no_timer_for_key:
  assumes "timers_wf c"
  shows "\<forall>t \<in> set (pending (KeyTimeout_clearTimeout c k)). snd (snd t) \<noteq> k"
  using assms by (auto simp: pending_clearTimeout timers_wf_def split: option.splits)

lemma clearTimeout_keeps_other:
  assumes "timers_wf c" "t \<in> set (pending c)" "snd (snd t) \<noteq> k"
  shows "t \<in> set (pending (KeyTimeout_clearTimeout c k))"
  using assms by (auto simp: pending_clearTimeout timers_wf_def split: option.splits)

lemma timers_wf_subset:
  assumes "timers_wf c" "set (pending c') \<subseteq> set (pending c)" "distinct (map fst (pending c'))"
    "timeoutHandleForKey c' = timeoutHandleForKey c" "next_handle c' = next_handle c"
  shows "timers_wf c'"
proof -
  have "\<forall>t \<in> set (pending c'). timeoutHandleForKey c' (snd (snd t)) = Some (fst t)"
    using assms(1,2,4) by (auto simp: timers_wf_def)
  then show ?thesis
    using assms(1,3,4,5) by (simp add: timers_wf_def)
qed

lemma distinct_pending_clearTimeout:
  "distinct (map fst (pending c)) \<Longrightarrow> distinct (map fst (pending (KeyTimeout_clearTimeout c k)))"
  by (auto simp: pending_clearTimeout distinct_map_filter split: option.splits)

lemma timers_wf_clearTimeout: "timers_wf c \<Longrightarrow> timers_wf (KeyTimeout_clearTimeout c k)"
  by (rule timers_wf_subset [where c = c])
     (simp_all add: set_pending_clearTimeout distinct_pending_clearTimeout timers_wf_def)

lemma MemoryCache_remove_fields [simp]:
  "mc_cache (MemoryCache_remove c k) = (mc_cache c)(k := None)"
  "timeoutHandleForKey (MemoryCache_remove c k) = timeoutHandleForKey c"
  "next_handle (MemoryCache_remove c k) = next_handle c"
  "mc_now (MemoryCache_remove c k) = mc_now c"
  "mc_ttl (MemoryCache_remove c k) = mc_ttl c"
  "pending (MemoryCache_remove c k) = pending (KeyTimeout_clearTimeout c k)"
  by (simp_all add: MemoryCache_remove_def Let_def)

lemma timers_wf_remove: "timers_wf c \<Longrightarrow> timers_wf (MemoryCache_remove c k)"
  using timers_wf_clearTimeout [of c k] by (simp add: timers_wf_def)

lemma updateTimeout_fields [simp]:
  "mc_cache (KeyTimeout_updateTimeout c k d) = mc_cache c"
  "timeoutHandleForKey (KeyTimeout_updateTimeout c k d) = (timeoutHandleForKey c)(k \<mapsto> next_handle c)"
  "next_handle (KeyTimeout_updateTimeout c k d) = Suc (next_handle c)"
  "mc_now (KeyTimeout_updateTimeout c k d) = mc_now c"
  "mc_ttl (KeyTimeout_updateTimeout c k d) = mc_ttl c"
  "pending (KeyTimeout_updateTimeout c k d) =
     pending (KeyTimeout_clearTimeout c k)
       @ [(next_handle c, mc_now c + (if 1 \<le> d \<and> d \<le> TIMEOUT_MAX then d else 1), k)]"
  by (simp_all add: KeyTimeout_updateTimeout_def js_setTimeout_def Let_def)

lemma pending_handles_below:
  assumes "timers_wf c" "t \<in> set (pending c)"
  shows "fst t < next_handle c"
  using assms unfolding timers_wf_def by blast

lemma timers_wf_updateTimeout:
  assumes "timers_wf c"
  shows "timers_wf (KeyTimeout_updateTimeout c k d)"
proof -
  let ?c1 = "KeyTimeout_clearTimeout c k"
  have wf1: "timers_wf ?c1" by (rule timers_wf_clearTimeout [OF assms])
  have "\<And>t. t \<in> set (pending ?c1) \<Longrightarrow> fst t \<noteq> next_handle c"
    using pending_handles_below [OF wf1] by fastforce
  then have fresh: "next_handle c \<notin> fst ` set (pending ?c1)"
    by force
  have nokey: "\<forall>t \<in> set (pending ?c1). snd (snd t) \<noteq> k"
    by (rule clearTimeout_no_timer_for_key [OF assms])
  have 1: "distinct (map fst (pending (KeyTimeout_updateTimeout c k d)))"
    using wf1 fresh by (simp add: timers_wf_def)
  have 2: "\<forall>t \<in> set (pending (KeyTimeout_updateTimeout c k d)).
        timeoutHandleForKey (KeyTimeout_updateTimeout c k d) (snd (snd t)) = Some (fst t)"
    using wf1 nokey by (auto simp: timers_wf_def)
  have 3: "\<forall>k' h. timeoutHandleForKey (KeyTimeout_updateTimeout c k d) k' = Some h
        \<longrightarrow> h < next_handle (KeyTimeout_updateTimeout c k d)"
    using assms by (auto simp: timers_wf_def less_Suc_eq)
  have 4: "\<forall>k1 k2 h. timeoutHandleForKey (KeyTimeout_updateTimeout c k d) k1 = Some h
        \<and> timeoutHandleForKey (KeyTimeout_updateTimeout c k d) k2 = Some h \<longrightarrow> k1 = k2"
  proof (intro allI impI)
    fix k1 k2 h
    assume a: "timeoutHandleForKey (KeyTimeout_updateTimeout c k d) k1 = Some h
        \<and> timeoutHandleForKey (KeyTimeout_updateTimeout c k d) k2 = Some h"
    have below: "\<And>k' h'. timeoutHandleForKey c k' = Some h' \<Longrightarrow> h' < next_handle c"
      and inj: "\<And>k' k'' h'. timeoutHandleForKey c k' = Some h' \<Longrightarrow> timeoutHandleForKey c k'' = Some h' \<Longrightarrow> k' = k''"
      using assms unfolding timers_wf_def by blast+
    show "k1 = k2"
    proof (cases "k1 = k")
      case True
      then have h: "h = next_handle c" using a by simp
      show ?thesis
      proof (rule ccontr)
        assume "k1 \<noteq> k2"
        then have "timeoutHandleForKey c k2 = Some h" using a True by simp
        then show False using below h by fastforce
      qed
    next
      case False
      then have 1: "timeoutHandleForKey c k1 = Some h" using a by simp
      show ?thesis
      proof (cases "k2 = k")
        case True
        then have "h = next_handle c" using a by simp
        then show ?thesis using below 1 by fastforce
      next
        case False
        then have "timeoutHandleForKey c k2 = Some h" using a by simp
        then show ?thesis using inj 1 by blast
      qed
    qed
  qed
  show ?thesis unfolding timers_wf_def using 1 2 3 4 by blast
qed

lemma MemoryCache_set_state:
  "snd (MemoryCache_set c k (Stream chunks) m) =
     (case mc_ttl c of
        Some ttl \<Rightarrow> KeyTimeout_updateTimeout (c\<lparr> mc_cache := (mc_cache c)(k \<mapsto> (concat chunks, m)) \<rparr>) k ttl
      | None \<Rightarrow> c\<lparr> mc_cache := (mc_cache c)(k \<mapsto> (concat chunks, m)) \<rparr>)"
  by (simp add: MemoryCache_set_def streamToBuffer_def Let_def split: option.splits)

lemma timers_wf_cache_update:
  "timers_wf (c\<lparr> mc_cache := x \<rparr>) = timers_wf c"
  by (simp add: timers_wf_def)

lemma timers_wf_set:
  assumes "timers_wf c"
  shows "timers_wf (snd (MemoryCache_set c k s m))"
proof (cases s)
  case (Stream chunks)
  then show ?thesis
    using assms timers_wf_updateTimeout [of "c\<lparr> mc_cache := (mc_cache c)(k \<mapsto> (concat chunks, m)) \<rparr>" k]
    by (auto simp: MemoryCache_set_state timers_wf_cache_update split: option.splits)
next
  case (Broken chunks e)
  then show ?thesis using assms by (simp add: MemoryCache_set_def streamToBuffer_def)
qed

lemma run_timer_fields [simp]:
  "timeoutHandleForKey (run_timer t c) = timeoutHandleForKey c"
  "next_handle (run_timer t c) = next_handle c"
  "mc_now (run_timer t c) = mc_now c"
  "mc_ttl (run_timer t c) = mc_ttl c"
  by (simp_all add: run_timer_def)

lemma set_pending_run_timer: "set (pending (run_timer t c)) \<subseteq> set (pending c)"
  by (auto simp: run_timer_def pending_clearTimeout KeyTimeout_clearTimeout_def js_clearTimeout_def
      split: option.splits)

lemma distinct_map_removeAll:
  "distinct (map f xs) \<Longrightarrow> distinct (map f (removeAll t xs))"
  by (induction xs) auto

lemma distinct_pending_run_timer:
  "distinct (map fst (pending c)) \<Longrightarrow> distinct (map fst (pending (run_timer t c)))"
  by (auto simp: run_timer_def KeyTimeout_clearTimeout_def js_clearTimeout_def
      distinct_map_filter distinct_map_removeAll split: option.splits)

lemma timers_wf_run_timer: "timers_wf c \<Longrightarrow> timers_wf (run_timer t c)"
  by (rule timers_wf_subset [where c = c])
     (simp_all add: set_pending_run_timer distinct_pending_run_timer timers_wf_def)




lemma run_timer_cache_other:
  "snd (snd t) \<noteq> k \<Longrightarrow> mc_cache (run_timer t c) k = mc_cache c k"
  by (simp add: run_timer_def)

lemma run_timer_cache_None:
  "mc_cache c k = None \<Longrightarrow> mc_cache (run_timer t c) k = None"
  by (simp add: run_timer_def)

lemma run_timer_fires:
  "t \<in> set (pending c) \<Longrightarrow> mc_cache (run_timer t c) (snd (snd t)) = None"
  by (simp add: run_timer_def)

lemma fold_run_timer_keeps:
  "\<forall>t \<in> set ts. snd (snd t) \<noteq> k \<Longrightarrow> mc_cache (fold run_timer ts c) k = mc_cache c k"
  by (induction ts arbitrary: c) (simp_all add: run_timer_cache_other)

lemma fold_run_timer_None:
  "mc_cache c k = None \<Longrightarrow> mc_cache (fold run_timer ts c) k = None"
  by (induction ts arbitrary: c) (simp_all add: run_timer_cache_None)

lemma run_timer_keeps_pending:
  assumes wf: "timers_wf c" and t0: "t0 \<in> set (pending c)" and ne: "t \<noteq> t0"
    and key: "snd (snd t) \<noteq> snd (snd t0)"
  shows "t0 \<in> set (pending (run_timer t c))"
proof (cases "t \<in> set (pending c)")
  case False
  then show ?thesis using t0 by (simp add: run_timer_def)
next
  case True
  let ?c1 = "c\<lparr> pending := removeAll t (pending c) \<rparr>"
  have wf1: "timers_wf ?c1"
    by (rule timers_wf_subset [where c = c])
       (use wf in \<open>auto simp: timers_wf_def distinct_map_removeAll\<close>)
  have "t0 \<in> set (pending ?c1)" using t0 ne by simp
  from clearTimeout_keeps_other [OF wf1 this, of "snd (snd t)"] key
  show ?thesis using True by (simp add: run_timer_def)
qed

lemma fold_run_timer_fires:
  assumes "timers_wf c"
    and "(t0 \<in> set ts \<and> t0 \<in> set (pending c)) \<or> mc_cache c (snd (snd t0)) = None"
  shows "mc_cache (fold run_timer ts c) (snd (snd t0)) = None"
  using assms
proof (induction ts arbitrary: c)
  case Nil
  then show ?case by simp
next
  case (Cons t ts)
  have wf': "timers_wf (run_timer t c)" by (rule timers_wf_run_timer [OF Cons.prems(1)])
  have "(t0 \<in> set ts \<and> t0 \<in> set (pending (run_timer t c)))
        \<or> mc_cache (run_timer t c) (snd (snd t0)) = None"
  proof (cases "mc_cache c (snd (snd t0)) = None")
    case True
    then show ?thesis by (simp add: run_timer_cache_None)
  next
    case False
    with Cons.prems(2) have in_ts: "t0 \<in> set (t # ts)" and pend: "t0 \<in> set (pending c)" by auto
    show ?thesis
    proof (cases "t = t0")
      case True
      then show ?thesis using run_timer_fires [OF pend] by simp
    next
      case ne: False
      show ?thesis
      proof (cases "snd (snd t) = snd (snd t0)")
        case True
        show ?thesis
        proof (cases "t \<in> set (pending c)")
          case True
          with \<open>snd (snd t) = snd (snd t0)\<close> run_timer_fires [OF True] show ?thesis by simp
        next
          case False
          then have "run_timer t c = c" by (simp add: run_timer_def)
          with in_ts ne pend show ?thesis by auto
        qed
      next
        case False
        from run_timer_keeps_pending [OF Cons.prems(1) pend ne False] in_ts ne
        show ?thesis by auto
      qed
    qed
  qed
  from Cons.IH [OF wf' this] show ?case by simp
qed

lemma elapse_fields [simp]:
  "mc_now (elapse dt c) = mc_now c + int dt"
  by (simp add: elapse_def Let_def)

lemma mc_cache_elapse:
  "mc_cache (elapse dt c) = mc_cache (fold run_timer
      (sort_key (\<lambda>t. fst (snd t)) (filter (\<lambda>(h, d, k). d \<le> mc_now c + int dt) (pending c))) c)"
  by (simp add: elapse_def Let_def)

lemma elapse_keeps:
  assumes "\<forall>t \<in> set (pending c). snd (snd t) = k \<longrightarrow> mc_now c + int dt < fst (snd t)"
  shows "mc_cache (elapse dt c) k = mc_cache c k"
  unfolding mc_cache_elapse
  by (rule fold_run_timer_keeps) (use assms in \<open>auto simp: case_prod_unfold\<close>)

lemma elapse_fires:
  assumes "timers_wf c" "t0 \<in> set (pending c)" "fst (snd t0) \<le> mc_now c + int dt"
  shows "mc_cache (elapse dt c) (snd (snd t0)) = None"
  unfolding mc_cache_elapse
  by (rule fold_run_timer_fires [OF assms(1)]) (use assms in \<open>auto simp: case_prod_unfold\<close>)

lemma timers_for_after_set:
  assumes "timers_wf c" "mc_ttl c = Some ttl"
  shows "timers_for (snd (MemoryCache_set c k (Stream chunks) m)) k
           = [(next_handle c, mc_now c + (if 1 \<le> ttl \<and> ttl \<le> TIMEOUT_MAX then ttl else 1), k)]"
proof -
  let ?c0 = "c\<lparr> mc_cache := (mc_cache c)(k \<mapsto> (concat chunks, m)) \<rparr>"
  have wf0: "timers_wf ?c0" using assms(1) by (simp add: timers_wf_cache_update)
  have "filter (\<lambda>t. snd (snd t) = k) (pending (KeyTimeout_clearTimeout ?c0 k)) = []"
    using clearTimeout_no_timer_for_key [OF wf0, of k] by (simp add: filter_empty_conv)
  then show ?thesis
    using assms(2) by (simp add: timers_for_def MemoryCache_set_state)
qed

lemma MemoryCache_get_cache:
  "MemoryCache_get c k = (case mc_cache c k of Some (b, m) \<Rightarrow> Some \<lparr> bodyStream = Readable_from b, metaData = m \<rparr> | None \<Rightarrow> None)"
  by (simp add: MemoryCache_get_def)

lemma MemoryCache_ttl:
  fixes c :: memory_cache and k :: string and chunks :: "string list" and m :: meta
  assumes wf: "timers_wf c" and ttl: "mc_ttl c = Some ttl"
  defines "c1 \<equiv> snd (MemoryCache_set c k (Stream chunks) m)"
    and "after \<equiv> (if 1 \<le> ttl \<and> ttl \<le> TIMEOUT_MAX then ttl else 1)"
  shows "int dt < after \<Longrightarrow>
           MemoryCache_get (elapse dt c1) k = Some \<lparr> bodyStream = Readable_from (concat chunks), metaData = m \<rparr>"
    and "after \<le> int dt \<Longrightarrow> MemoryCache_get (elapse dt c1) k = None"
    and "timers_wf c1"
proof -
  have t: "timers_for c1 k = [(next_handle c, mc_now c + after, k)]"
    unfolding c1_def after_def by (rule timers_for_after_set [OF wf ttl])
  have now: "mc_now c1 = mc_now c" and cache: "mc_cache c1 k = Some (concat chunks, m)"
    using ttl by (simp_all add: c1_def MemoryCache_set_state)
  show wf1: "timers_wf c1" unfolding c1_def by (rule timers_wf_set [OF wf])
  have f: "t \<in> set (filter (\<lambda>t. snd (snd t) = k) (pending c1)) \<longleftrightarrow> t = (next_handle c, mc_now c + after, k)" for t
    using t unfolding timers_for_def by simp
  have only: "t = (next_handle c, mc_now c + after, k)" if "t \<in> set (pending c1)" "snd (snd t) = k" for t
    using f [of t] that by simp
  have there: "(next_handle c, mc_now c + after, k) \<in> set (pending c1)"
    using f [of "(next_handle c, mc_now c + after, k)"] by simp
  {
    assume "int dt < after"
    then have "\<forall>t \<in> set (pending c1). snd (snd t) = k \<longrightarrow> mc_now c1 + int dt < fst (snd t)"
      using only now by fastforce
    from elapse_keeps [OF this] cache
    show "MemoryCache_get (elapse dt c1) k = Some \<lparr> bodyStream = Readable_from (concat chunks), metaData = m \<rparr>"
      by (simp add: MemoryCache_get_cache)
  }
  {
    assume "after \<le> int dt"
    moreover note there
    ultimately have "mc_cache (elapse dt c1) (snd (snd (next_handle c, mc_now c + after, k))) = None"
      using now by (intro elapse_fires [OF wf1]) simp_all
    then show "MemoryCache_get (elapse dt c1) k = None"
      by (simp add: MemoryCache_get_cache)
  }
qed




text \<open>
  C3, as amended. Let the metadata carry none of the names \<^verbatim>\<open>expiration\<close>,
  \<^verbatim>\<open>bodyStreamIntegrity\<close> and \<^verbatim>\<open>empty\<close>. For every key and every stream that ends,
  \<^verbatim>\<open>set\<close> returns a stream of exactly the bytes of the body together with the
  metadata as given, and a \<^verbatim>\<open>get\<close> that follows \<open>dt\<close> milliseconds later returns the
  same. In \<^verbatim>\<open>MemoryCache\<close> this holds when the store has no time-to-live (and so no
  timers), or a time-to-live \<open>t\<close> between 1 and \<open>2\<^sup>3\<^sup>1 - 1\<close> milliseconds with
  \<open>dt < t\<close>. In \<^verbatim>\<open>FileSystemCache\<close> it holds when the two writes succeed, the digest
  keeps bodies and documents apart and, with a time-to-live \<open>t\<close>, the time that
  \<^verbatim>\<open>set\<close> takes and \<open>dt\<close> together are at most \<open>t\<close>.
\<close>

theorem store_round_trip:
  assumes "map_of m ''empty'' = None" and "map_of m ''expiration'' = None"
    and "map_of m ''bodyStreamIntegrity'' = None"
    and "timers_wf mc"
    and "case mc_ttl mc of Some t \<Rightarrow> 1 \<le> t \<and> t \<le> TIMEOUT_MAX \<and> int dt < t | None \<Rightarrow> pending mc = []"
    and "writes_succeed fc" and "tokens_apart ssri"
    and "case fs_ttl fc of Some t \<Rightarrow> set_duration fc + int dt \<le> t | None \<Rightarrow> True"
  shows "(\<exists>mc'. MemoryCache_set mc key (Stream chunks) m =
             (Resolves (Some \<lparr> bodyStream = Readable_from (concat chunks), metaData = m \<rparr>), mc')
           \<and> MemoryCache_get (elapse dt mc') key
               = Some \<lparr> bodyStream = Readable_from (concat chunks), metaData = m \<rparr>)
       \<and> (\<exists>fc'. FileSystemCache_set ssri fc key (Stream chunks) m =
             (Resolves (Some \<lparr> bodyStream = Readable_from (concat chunks), metaData = m \<rparr>), fc')
           \<and> fs_now fc' = fs_now fc + set_duration fc
           \<and> FileSystemCache_get (fc'\<lparr> fs_now := fs_now fc' + int dt \<rparr>) key =
               Resolves (Some \<lparr> bodyStream = Readable_from (concat chunks), metaData = m \<rparr>))
       \<and> stream_contents (Readable_from (concat chunks)) = stream_contents (Stream chunks)"
proof -
  obtain r mc' where s: "MemoryCache_set mc key (Stream chunks) m = (r, mc')"
    by (cases "MemoryCache_set mc key (Stream chunks) m")
  note mem = MemoryCache_set_get [OF s]
  have mc': "mc' = snd (MemoryCache_set mc key (Stream chunks) m)"
    by (simp add: s)
  have later: "MemoryCache_get (elapse dt mc') key
      = Some \<lparr> bodyStream = Readable_from (concat chunks), metaData = m \<rparr>"
  proof (cases "mc_ttl mc")
    case None
    with assms(5) show ?thesis
      unfolding mc' by (intro MemoryCache_set_no_ttl) simp_all
  next
    case (Some t)
    with assms(5) have "int dt < (if 1 \<le> t \<and> t \<le> TIMEOUT_MAX then t else 1)"
      by simp
    from MemoryCache_ttl(1) [OF assms(4) Some this] show ?thesis
      unfolding mc' .
  qed
  obtain fc' where w: "FileSystemCache_set ssri fc key (Stream chunks) m = (FileSystemCache_get fc' key, fc')"
    and i: "fs_index fc' (key @ ''meta'') = Some (ssri (Document (meta_document ssri fc (concat chunks) m)))"
    and d: "fs_content fc' (ssri (Document (meta_document ssri fc (concat chunks) m)))
               = Some (Document (meta_document ssri fc (concat chunks) m))"
    and b: "concat chunks \<noteq> [] \<longrightarrow>
               fs_content fc' (ssri (Bytes (concat chunks))) = Some (Bytes (concat chunks))"
    and n: "fs_now fc' = fs_now fc + set_duration fc"
    using FileSystemCache_set_writes [OF assms(6,7), of key chunks m] by blast
  have dur: "0 \<le> set_duration fc"
    by (simp add: set_duration_def)
  have ne: "\<not> expired (case fs_ttl fc of Some ttl \<Rightarrow> Some (JsonNum (fs_now fc + ttl)) | None \<Rightarrow> map_of m ''expiration'')
          (fs_now fc + (set_duration fc + int x))" if "x \<le> dt" for x
    using assms(2,8) that by (auto simp: expired_def split: option.splits)
  have g: "FileSystemCache_get (fc'\<lparr> fs_now := fs_now fc + (set_duration fc + int x) \<rparr>) key =
      Resolves (Some \<lparr> bodyStream = Readable_from (concat chunks), metaData = m \<rparr>)" if "x \<le> dt" for x
    using FileSystemCache_get_written [OF i d b, of "fs_now fc + (set_duration fc + int x)"] assms(1)
      strip_internal_id [OF assms(1,2,3)] ne [OF that]
    by simp
  have eq: "fc'\<lparr> fs_now := fs_now fc + (set_duration fc + int 0) \<rparr> = fc'"
    by (simp add: n [symmetric])
  have g0: "FileSystemCache_get fc' key =
      Resolves (Some \<lparr> bodyStream = Readable_from (concat chunks), metaData = m \<rparr>)"
    using g [of 0] unfolding eq by simp
  have g1: "FileSystemCache_get (fc'\<lparr> fs_now := fs_now fc' + int dt \<rparr>) key =
      Resolves (Some \<lparr> bodyStream = Readable_from (concat chunks), metaData = m \<rparr>)"
    using g [of dt] by (simp add: n add.assoc)
  show ?thesis
    using mem s w g0 g1 n later by (simp add: Readable_from_def)
qed

theorem store_round_trip_witness:
  "map_of example_meta ''empty'' = None \<and> map_of example_meta ''expiration'' = None
   \<and> map_of example_meta ''bodyStreamIntegrity'' = None
   \<and> timers_wf (new_MemoryCache (Some 2000) 1000)
   \<and> writes_succeed slow_disk \<and> tokens_apart tagging_digest
   \<and> fs_ttl slow_disk = Some 2000 \<and> set_duration slow_disk = 10
   \<and> fst (MemoryCache_set (new_MemoryCache (Some 2000) 1000) ''k'' (Stream [''he'', ''llo'']) example_meta)
       = Resolves (Some \<lparr> bodyStream = Readable_from ''hello'', metaData = example_meta \<rparr>)
   \<and> MemoryCache_get
        (elapse 1990 (snd (MemoryCache_set (new_MemoryCache (Some 2000) 1000) ''k''
            (Stream [''he'', ''llo'']) example_meta))) ''k''
       = Some \<lparr> bodyStream = Readable_from ''hello'', metaData = example_meta \<rparr>
   \<and> fst (FileSystemCache_set tagging_digest slow_disk ''k'' (Stream [''he'', ''llo'']) example_meta)
       = Resolves (Some \<lparr> bodyStream = Readable_from ''hello'', metaData = example_meta \<rparr>)
   \<and> fs_now (snd (FileSystemCache_set tagging_digest slow_disk ''k'' (Stream [''he'', ''llo'']) example_meta))
       = 1010
   \<and> FileSystemCache_get
        ((snd (FileSystemCache_set tagging_digest slow_disk ''k''
            (Stream [''he'', ''llo'']) example_meta))\<lparr> fs_now := 3000 \<rparr>) ''k''
       = Resolves (Some \<lparr> bodyStream = Readable_from ''hello'', metaData = example_meta \<rparr>)"
proof -
  have 1: "map_of example_meta ''empty'' = None" and 2: "map_of example_meta ''expiration'' = None"
    and 3: "map_of example_meta ''bodyStreamIntegrity'' = None"
    by (simp_all add: example_meta_def)
  have 4: "timers_wf (new_MemoryCache (Some 2000) 1000)" by (rule timers_wf_new)
  have 5: "case mc_ttl (new_MemoryCache (Some 2000) 1000) of
             Some t \<Rightarrow> 1 \<le> t \<and> t \<le> TIMEOUT_MAX \<and> int 1990 < t | None \<Rightarrow> pending (new_MemoryCache (Some 2000) 1000) = []"
    by (simp add: new_MemoryCache_def TIMEOUT_MAX_def)
  have 6: "writes_succeed slow_disk"
    by (simp add: writes_succeed_def slow_disk_def new_FileSystemCache_def)
  have 7: "tokens_apart tagging_digest"
    by (simp add: tokens_apart_def tagging_digest_def)
  have t: "fs_ttl slow_disk = Some 2000" and l: "set_duration slow_disk = 10"
    and n: "fs_now slow_disk = 1000"
    by (simp_all add: slow_disk_def new_FileSystemCache_def set_duration_def)
  have 8: "case fs_ttl slow_disk of Some t \<Rightarrow> set_duration slow_disk + int 1990 \<le> t | None \<Rightarrow> True"
    by (simp add: t l)
  from store_round_trip [OF 1 2 3 4 5 6 7 8, where key = "''k''" and chunks = "[''he'', ''llo'']"]
    1 2 3 4 6 7 t l n
  show ?thesis by auto
qed

text \<open>
  The claim as stated fails for metadata that uses a reserved name: with
  \<^verbatim>\<open>empty: true\<close> in the metadata, \<^verbatim>\<open>FileSystemCache\<close> writes the body and then reads
  the entry back as one with an empty body.
\<close>

theorem FileSystemCache_reserved_key_loses_body:
  "fst (FileSystemCache_set tagging_digest (new_FileSystemCache None 0) ''k'' (Stream [''abc''])
         [(''empty'', JsonBool True)])
     = Resolves (Some \<lparr> bodyStream = Readable_from [], metaData = [] \<rparr>)
   \<and> stream_contents (Readable_from []) \<noteq> stream_contents (Stream [''abc''])"
  by (simp add: FileSystemCache_set_def getBodyAndMetaKeys_def new_FileSystemCache_def
      cacache_put_stream_def cacache_put_def FileSystemCache_get_def expired_def disk_wait_def
      tagging_digest_def Readable_from_def Let_def)



section \<open>Properties of the cache-aware fetch\<close>

lemma logged_fields [simp]:
  "store (logged e w) = store w" "held (logged e w) = held w" "log (logged e w) = log w @ [e]"
  by (simp_all add: logged_def)

lemma getResponse_from_hit:
  assumes "cache_get cache (store w) k = Resolves (Some v)"
  shows "getResponse_from cache fetch wait args k oic w =
           (Resolves (Some (new_NFCResponse v k True)), logged (Get k) w)"
  using assms by (simp add: getResponse_from_def Let_def)

lemma getResponse_from_only_if_cached_miss:
  assumes "cache_get cache (store w) k = Resolves None" "oic"
  shows "getResponse_from cache fetch wait args k oic w = (Resolves None, logged (Get k) w)"
  using assms by (simp add: getResponse_from_def Let_def)


lemma getResponse_from_fetch_rejects:
  assumes "cache_get cache (store w) k = Resolves None" "\<not> oic"
    and "cache_get cache (wait (store w)) k = Resolves None"
    and "fetch (fst args) (snd args) = Rejects e"
  shows "getResponse_from cache fetch wait args k oic w =
           (Rejects e,
            w\<lparr> store := wait (store w),
               log := log w @ [Get k, Lock k, Get k, Fetch (fst args) (snd args), Unlock k] \<rparr>)"
  using assms by (simp add: getResponse_from_def fetch_and_store_def Let_def logged_def)

lemma getResponse_from_stored:
  assumes "cache_get cache (store w) k = Resolves None" "\<not> oic"
    and "cache_get cache (wait (store w)) k = Resolves None"
    and "fetch (fst args) (snd args) = Resolves res"
    and "cache_set cache (wait (store w)) k (res_body res) (serializeMetaFromNodeFetchResponse res) = (r, s')"
  shows "getResponse_from cache fetch wait args k oic w =
           (case r of
              Resolves (Some d) \<Rightarrow>
                (Resolves (Some (new_NFCResponse d k False)),
                 w\<lparr> store := s',
                    log := log w @ [Get k, Lock k, Get k, Fetch (fst args) (snd args), Put k, Unlock k] \<rparr>)
            | Resolves None \<Rightarrow>
                (Rejects TypeError,
                 w\<lparr> store := s',
                    log := log w @ [Get k, Lock k, Get k, Fetch (fst args) (snd args), Put k, Unlock k] \<rparr>)
            | Rejects e \<Rightarrow>
                (Rejects e,
                 w\<lparr> store := s',
                    log := log w @ [Get k, Lock k, Get k, Fetch (fst args) (snd args), Put k, Unlock k] \<rparr>)
            | Never_settles \<Rightarrow>
                (Never_settles,
                 w\<lparr> store := s', held := k # held w,
                    log := log w @ [Get k, Lock k, Get k, Fetch (fst args) (snd args), Put k] \<rparr>))"
  using assms
  by (simp add: getResponse_from_def fetch_and_store_def Let_def logged_def
      split: outcome.splits option.splits)



lemma MemoryCache_simps [simp]:
  "cache_get MemoryCache = (\<lambda>c key. Resolves (MemoryCache_get c key))"
  "cache_set MemoryCache = MemoryCache_set"
  by (simp_all add: MemoryCache_def)

lemma FileSystemCache_simps [simp]:
  "cache_get (FileSystemCache ssri) = FileSystemCache_get"
  "cache_set (FileSystemCache ssri) = FileSystemCache_set ssri"
  by (simp_all add: FileSystemCache_def)

lemma example_key_derived:
  "getCacheKey_cjs id key_flags (fst example_args) (snd example_args) = Inr example_key"
  using getCacheKey_cjs_bare_url_example by (simp add: example_args_def example_key_def)



lemma example_get_before: "MemoryCache_get (new_MemoryCache None 0) k = None"
  by (simp add: MemoryCache_get_def new_MemoryCache_def)

lemma example_not_only_if_cached: "\<not> hasOnlyWithCacheOption (fst example_args) (snd example_args)"
  by (simp add: hasOnlyWithCacheOption_def example_args_def)



lemma MemoryCache_set_rejects:
  "MemoryCache_set mc k body m = (Rejects e, mc') \<Longrightarrow> mc' = mc"
  by (auto simp: MemoryCache_set_def streamToBuffer_def Let_def split: stream.splits option.splits)

lemma cacache_put_index_other:
  "key' \<noteq> key \<Longrightarrow> fs_index (snd (cacache_put ssri c key data)) key' = fs_index c key'"
  by (auto simp: cacache_put_def Let_def split: list.splits option.splits)

lemma cacache_put_cases:
  "cacache_put ssri c key data = (Inl e, c') \<Longrightarrow> c' = (disk_wait c)\<lparr> fs_faults := tl (fs_faults c) \<rparr>"
  "cacache_put ssri c key data = (Inr i, c') \<Longrightarrow>
     i = ssri data \<and> c' = (disk_wait c)\<lparr> fs_index := (fs_index c)(key \<mapsto> ssri data),
             fs_content := (fs_content c)(ssri data \<mapsto> data), fs_faults := tl (fs_faults c) \<rparr>"
  by (auto simp: cacache_put_def Let_def split: list.splits option.splits)

lemma FileSystemCache_get_Resolves_after_meta_put:
  assumes "cacache_put ssri c1 (key @ ''meta'') (Document d) = (Inr i, c2)"
  shows "\<exists>r. FileSystemCache_get (disk_wait (disk_wait c2)) key = Resolves r"
  using cacache_put_cases(2) [OF assms]
  by (auto simp: FileSystemCache_get_def getBodyAndMetaKeys_def Let_def)

text \<open>A \<^verbatim>\<open>set\<close> that rejects has written at most the body.\<close>

lemma FileSystemCache_set_rejects:
  assumes "FileSystemCache_set ssri c key body m = (Rejects e, c')"
  shows "fs_index c' (key @ ''meta'') = fs_index c (key @ ''meta'')
       \<and> fs_now c \<le> fs_now c'
       \<and> (\<forall>i. i \<noteq> ssri (Bytes (stream_contents body)) \<longrightarrow> fs_content c' i = fs_content c i)
       \<and> (fs_content c' (ssri (Bytes (stream_contents body))) = fs_content c (ssri (Bytes (stream_contents body)))
          \<or> fs_content c' (ssri (Bytes (stream_contents body))) = Some (Bytes (stream_contents body)))"
proof (cases body)
  case (Broken chunks err)
  with assms show ?thesis
    by (simp add: FileSystemCache_set_def getBodyAndMetaKeys_def cacache_put_stream_def Let_def)
next
  case (Stream chunks)
  obtain r1 c1 where p1: "cacache_put_stream ssri c (key @ ''body'') (Stream chunks) = (r1, c1)"
    by (cases "cacache_put_stream ssri c (key @ ''body'') (Stream chunks)")
  have c1: "fs_index c1 (key @ ''meta'') = fs_index c (key @ ''meta'') \<and> fs_now c \<le> fs_now c1
       \<and> (\<forall>i. i \<noteq> ssri (Bytes (concat chunks)) \<longrightarrow> fs_content c1 i = fs_content c i)
       \<and> (fs_content c1 (ssri (Bytes (concat chunks))) = fs_content c (ssri (Bytes (concat chunks)))
          \<or> fs_content c1 (ssri (Bytes (concat chunks))) = Some (Bytes (concat chunks)))"
    using p1
    by (auto simp: cacache_put_stream_def cacache_put_def Let_def fs_now_disk_wait
        split: list.splits option.splits if_splits)
  define mcopy where "mcopy = (case fs_ttl c of Some ttl \<Rightarrow> AList.update ''expiration'' (JsonNum (fs_now c + ttl)) m | None \<Rightarrow> m)"
  have meta_fail: "c' = (disk_wait c1)\<lparr> fs_faults := tl (fs_faults c1) \<rparr>"
    if "(case cacache_put ssri c1 (key @ ''meta'') (Document d) of
            (Inl e, c') \<Rightarrow> (Rejects e, c')
          | (Inr i, c') \<Rightarrow>
              (let c'' = disk_wait (disk_wait c') in (FileSystemCache_get c'' key, c'')))
        = (Rejects e, c')" for d
  proof (cases "cacache_put ssri c1 (key @ ''meta'') (Document d)")
    case (Pair a c2)
    show ?thesis
    proof (cases a)
      case (Inl err)
      with Pair that cacache_put_cases(1) [of ssri c1 "key @ ''meta''" "Document d" err c2]
      show ?thesis by simp
    next
      case (Inr i)
      with Pair FileSystemCache_get_Resolves_after_meta_put [of ssri c1 key d i c2] that
      show ?thesis by (auto simp: Let_def)
    qed
  qed
  show ?thesis
  proof (cases r1)
    case Never_settles
    with assms Stream p1 show ?thesis
      by (simp add: FileSystemCache_set_def getBodyAndMetaKeys_def Let_def)
  next
    case (Resolves i)
    with assms Stream p1 have "c' = (disk_wait c1)\<lparr> fs_faults := tl (fs_faults c1) \<rparr>"
      by (intro meta_fail [of "AList.update ''bodyStreamIntegrity'' (JsonStr i) mcopy"])
         (simp add: FileSystemCache_set_def getBodyAndMetaKeys_def Let_def mcopy_def)
    with c1 Stream fs_now_le_disk_wait [of c1] show ?thesis by simp
  next
    case (Rejects err)
    show ?thesis
    proof (cases "err = ENODATA")
      case False
      with assms Stream p1 Rejects have "c' = c1"
        by (simp add: FileSystemCache_set_def getBodyAndMetaKeys_def Let_def)
      with c1 Stream show ?thesis by simp
    next
      case True
      with assms Stream p1 Rejects have "c' = (disk_wait c1)\<lparr> fs_faults := tl (fs_faults c1) \<rparr>"
        by (intro meta_fail [of "AList.update ''empty'' (JsonBool True) mcopy"])
           (simp add: FileSystemCache_set_def getBodyAndMetaKeys_def Let_def mcopy_def)
      with c1 Stream fs_now_le_disk_wait [of c1] show ?thesis by simp
    qed
  qed
qed

lemma FileSystemCache_get_absent_kept:
  assumes miss: "FileSystemCache_get c key = Resolves None"
    and idx: "fs_index c' (key @ ''meta'') = fs_index c (key @ ''meta'')"
    and now: "fs_now c \<le> fs_now c'"
    and same: "\<forall>i. i \<noteq> t \<longrightarrow> fs_content c' i = fs_content c i"
    and tok: "fs_index c (key @ ''meta'') \<noteq> Some t"
  shows "FileSystemCache_get c' key = Resolves None"
proof (cases "fs_index c (key @ ''meta'')")
  case None
  with idx show ?thesis by (simp add: FileSystemCache_get_def getBodyAndMetaKeys_def)
next
  case (Some i)
  with tok have "i \<noteq> t" by simp
  with same have eq: "fs_content c' i = fs_content c i" by simp
  from miss Some obtain d where d: "fs_content c i = Some (Document d)"
    and ex: "expired (map_of d ''expiration'') (fs_now c)"
    by (auto simp: FileSystemCache_get_def getBodyAndMetaKeys_def Let_def
        split: option.splits blob.splits if_splits)
  from idx Some eq d expired_later [OF ex now] show ?thesis
    by (simp add: FileSystemCache_get_def getBodyAndMetaKeys_def Let_def)
qed

lemma FileSystemCache_failed_set_leaves_no_entry:
  assumes rej: "FileSystemCache_set ssri c key body m = (Rejects e, c')"
    and miss: "FileSystemCache_get c key = Resolves None"
    and apart: "tokens_apart ssri" and ca: "content_addressed ssri c"
  shows "FileSystemCache_get c' key = Resolves None
       \<and> fs_index c' (key @ ''meta'') = fs_index c (key @ ''meta'')"
proof -
  note R = FileSystemCache_set_rejects [OF rej]
  have tok: "fs_index c (key @ ''meta'') \<noteq> Some (ssri (Bytes (stream_contents body)))"
  proof
    assume a: "fs_index c (key @ ''meta'') = Some (ssri (Bytes (stream_contents body)))"
    with miss obtain d where d: "fs_content c (ssri (Bytes (stream_contents body))) = Some (Document d)"
      by (auto simp: FileSystemCache_get_def getBodyAndMetaKeys_def Let_def
          split: option.splits blob.splits if_splits)
    with ca have "ssri (Bytes (stream_contents body)) = ssri (Document d)"
      unfolding content_addressed_def by blast
    with apart show False by (simp add: tokens_apart_def)
  qed
  from FileSystemCache_get_absent_kept [OF miss _ _ _ tok, of c'] R
  show ?thesis by blast
qed

lemma faulty_disk_set:
  "FileSystemCache_set tagging_digest faulty_disk example_key (res_body example_response)
      (serializeMetaFromNodeFetchResponse example_response)
    = (Rejects (StorageError ''EIO''),
       faulty_disk\<lparr> fs_index := (fs_index faulty_disk)(example_key @ ''body'' \<mapsto> ''sha512-bytes-hello''),
          fs_content := (fs_content faulty_disk)(''sha512-bytes-hello'' \<mapsto> Bytes ''hello''),
          fs_faults := [] \<rparr>)"
  by (simp add: FileSystemCache_set_def getBodyAndMetaKeys_def faulty_disk_def new_FileSystemCache_def
      cacache_put_stream_def cacache_put_def disk_wait_def example_response_def tagging_digest_def
      Let_def)

lemma faulty_disk_get: "FileSystemCache_get faulty_disk k = Resolves None"
  by (simp add: FileSystemCache_get_def getBodyAndMetaKeys_def faulty_disk_def new_FileSystemCache_def)

text \<open>
  C2, as amended. Let both looks into the store find nothing for the key \<open>k\<close> of a
  request that is not only-if-cached. If the transport rejects with \<open>e\<close>, the call
  rejects with \<open>e\<close>, has called the transport once, has released the lock and has not
  written to the store. If \<^verbatim>\<open>set\<close> rejects with \<open>e\<close>, the call rejects with \<open>e\<close>, has
  called the transport once and has released the lock, and the store is as \<^verbatim>\<open>set\<close>
  left it: a \<^verbatim>\<open>MemoryCache\<close> unchanged; a \<^verbatim>\<open>FileSystemCache\<close> with the same metadata
  entry for the key as before, so that \<^verbatim>\<open>get\<close> still finds nothing.
\<close>

theorem failed_fetch_leaves_no_entry:
  assumes "getCacheKey_cjs hash kf (fst args) (snd args) = Inr k"
    and "\<not> hasOnlyWithCacheOption (fst args) (snd args)"
    and "cache_get cache (store w) k = Resolves None"
    and "cache_get cache (wait (store w)) k = Resolves None"
  shows "(fetch (fst args) (snd args) = Rejects e \<longrightarrow>
            getResponse_cjs hash kf cache fetch wait args w
              = (Rejects e,
                 w\<lparr> store := wait (store w),
                    log := log w @ [Get k, Lock k, Get k, Fetch (fst args) (snd args), Unlock k] \<rparr>))
       \<and> (fetch (fst args) (snd args) = Resolves res
          \<and> cache_set cache (wait (store w)) k (res_body res) (serializeMetaFromNodeFetchResponse res)
              = (Rejects e, s') \<longrightarrow>
            getResponse_cjs hash kf cache fetch wait args w
              = (Rejects e,
                 w\<lparr> store := s',
                    log := log w @ [Get k, Lock k, Get k, Fetch (fst args) (snd args), Put k, Unlock k] \<rparr>))
       \<and> (MemoryCache_set mc k' body m = (Rejects e, mc') \<longrightarrow> mc' = mc)
       \<and> (FileSystemCache_set ssri fc k' body m = (Rejects e, fc')
          \<and> FileSystemCache_get fc k' = Resolves None
          \<and> tokens_apart ssri \<and> content_addressed ssri fc \<longrightarrow>
            FileSystemCache_get fc' k' = Resolves None
            \<and> fs_index fc' (k' @ ''meta'') = fs_index fc (k' @ ''meta''))"
proof -
  have g: "getResponse_cjs hash kf cache fetch wait args w =
      getResponse_from cache fetch wait args k (hasOnlyWithCacheOption (fst args) (snd args)) w"
    by (simp add: getResponse_cjs_def assms(1))
  have 1: "fetch (fst args) (snd args) = Rejects e \<longrightarrow>
            getResponse_cjs hash kf cache fetch wait args w
              = (Rejects e,
                 w\<lparr> store := wait (store w),
                    log := log w @ [Get k, Lock k, Get k, Fetch (fst args) (snd args), Unlock k] \<rparr>)"
    unfolding g
    using getResponse_from_fetch_rejects [where cache = cache and w = w and k = k and wait = wait
        and fetch = fetch and args = args and e = e, OF assms(3,2,4)] by blast
  have 2: "fetch (fst args) (snd args) = Resolves res
          \<and> cache_set cache (wait (store w)) k (res_body res) (serializeMetaFromNodeFetchResponse res)
              = (Rejects e, s') \<longrightarrow>
            getResponse_cjs hash kf cache fetch wait args w
              = (Rejects e,
                 w\<lparr> store := s',
                    log := log w @ [Get k, Lock k, Get k, Fetch (fst args) (snd args), Put k, Unlock k] \<rparr>)"
    unfolding g
    using getResponse_from_stored [where cache = cache and w = w and k = k and wait = wait
        and fetch = fetch and args = args and res = res and r = "Rejects e" and s' = s',
        OF assms(3,2,4)] by simp
  have 3: "MemoryCache_set mc k' body m = (Rejects e, mc') \<longrightarrow> mc' = mc"
    using MemoryCache_set_rejects by blast
  have 4: "FileSystemCache_set ssri fc k' body m = (Rejects e, fc')
          \<and> FileSystemCache_get fc k' = Resolves None
          \<and> tokens_apart ssri \<and> content_addressed ssri fc \<longrightarrow>
            FileSystemCache_get fc' k' = Resolves None
            \<and> fs_index fc' (k' @ ''meta'') = fs_index fc (k' @ ''meta'')"
    using FileSystemCache_failed_set_leaves_no_entry [of ssri fc k' body m e fc'] by blast
  from 1 2 3 4 show ?thesis by blast
qed

theorem failed_fetch_leaves_no_entry_witness:
  "getCacheKey_cjs id DEFAULT_KEY_FLAGS (fst example_args) (snd example_args) = Inr example_key
   \<and> \<not> hasOnlyWithCacheOption (fst example_args) (snd example_args)
   \<and> getResponse_cjs id DEFAULT_KEY_FLAGS MemoryCache failing_fetch id example_args memory_world
       = (Rejects (TransportError ''ECONNRESET''),
          memory_world\<lparr> log := [Get example_key, Lock example_key, Get example_key,
                     Fetch (fst example_args) (snd example_args), Unlock example_key] \<rparr>)
   \<and> getResponse_cjs id DEFAULT_KEY_FLAGS MemoryCache broken_fetch id example_args memory_world
       = (Rejects (StreamError ''aborted''),
          memory_world\<lparr> log := [Get example_key, Lock example_key, Get example_key,
                     Fetch (fst example_args) (snd example_args), Put example_key, Unlock example_key] \<rparr>)
   \<and> tokens_apart tagging_digest \<and> content_addressed tagging_digest faulty_disk
   \<and> FileSystemCache_get
        (snd (FileSystemCache_set tagging_digest faulty_disk example_key (res_body example_response)
                (serializeMetaFromNodeFetchResponse example_response))) example_key = Resolves None"
proof -
  note k = example_key_derived [of DEFAULT_KEY_FLAGS]
  have s: "store memory_world = new_MemoryCache None 0" and l: "log memory_world = []"
    by (simp_all add: memory_world_def)
  have m1: "cache_get MemoryCache (store memory_world) example_key = Resolves None"
    and m2: "cache_get MemoryCache (id (store memory_world)) example_key = Resolves None"
    by (simp_all add: s example_get_before)
  note T = failed_fetch_leaves_no_entry [where cache = MemoryCache and w = memory_world and wait = id
      and hash = id and kf = DEFAULT_KEY_FLAGS and args = example_args and k = example_key,
      OF k example_not_only_if_cached m1 m2]
  have bs: "cache_set MemoryCache (id (store memory_world)) example_key (res_body broken_response)
      (serializeMetaFromNodeFetchResponse broken_response)
     = (Rejects (StreamError ''aborted''), new_MemoryCache None 0)"
    by (simp add: s MemoryCache_set_def streamToBuffer_def broken_response_def)
  have a: "getResponse_cjs id DEFAULT_KEY_FLAGS MemoryCache failing_fetch id example_args memory_world
       = (Rejects (TransportError ''ECONNRESET''),
          memory_world\<lparr> log := [Get example_key, Lock example_key, Get example_key,
                     Fetch (fst example_args) (snd example_args), Unlock example_key] \<rparr>)"
    using T [where fetch = failing_fetch and e = "TransportError ''ECONNRESET''"]
    by (simp add: failing_fetch_def l memory_world_def)
  have b: "getResponse_cjs id DEFAULT_KEY_FLAGS MemoryCache broken_fetch id example_args memory_world
       = (Rejects (StreamError ''aborted''),
          memory_world\<lparr> log := [Get example_key, Lock example_key, Get example_key,
                     Fetch (fst example_args) (snd example_args), Put example_key, Unlock example_key] \<rparr>)"
    using T [where fetch = broken_fetch and e = "StreamError ''aborted''" and res = broken_response
        and s' = "new_MemoryCache None 0"] bs
    by (simp add: broken_fetch_def l memory_world_def)
  have c: "tokens_apart tagging_digest"
    by (simp add: tokens_apart_def tagging_digest_def)
  have d: "content_addressed tagging_digest faulty_disk"
    by (simp add: content_addressed_def faulty_disk_def new_FileSystemCache_def)
  have e: "FileSystemCache_get
        (snd (FileSystemCache_set tagging_digest faulty_disk example_key (res_body example_response)
                (serializeMetaFromNodeFetchResponse example_response))) example_key = Resolves None"
    using T [where ssri = tagging_digest and fc = faulty_disk and k' = example_key
        and body = "res_body example_response" and m = "serializeMetaFromNodeFetchResponse example_response"
        and e = "StorageError ''EIO''"
        and fc' = "snd (FileSystemCache_set tagging_digest faulty_disk example_key (res_body example_response)
                (serializeMetaFromNodeFetchResponse example_response))"]
      faulty_disk_set faulty_disk_get c d
    by simp
  from k example_not_only_if_cached a b c d e show ?thesis by blast
qed

text \<open>
  The claim as stated fails for \<^verbatim>\<open>FileSystemCache\<close> when the body is written and the
  write of the metadata fails: the call rejects with the error of the disk, and the
  index of the store has an entry \<^verbatim>\<open><key>body\<close> that it did not have before.
\<close>

theorem failed_metadata_write_leaves_body:
  "fst (getResponse_cjs id DEFAULT_KEY_FLAGS (FileSystemCache tagging_digest) example_fetch id
          example_args disk_world) = Rejects (StorageError ''EIO'')
   \<and> fs_index (store disk_world) (example_key @ ''body'') = None
   \<and> fs_index (store (snd (getResponse_cjs id DEFAULT_KEY_FLAGS (FileSystemCache tagging_digest)
          example_fetch id example_args disk_world))) (example_key @ ''body'') = Some ''sha512-bytes-hello''"
proof -
  have s: "store disk_world = faulty_disk" by (simp add: disk_world_def)
  have "getResponse_cjs id DEFAULT_KEY_FLAGS (FileSystemCache tagging_digest) example_fetch id
          example_args disk_world
      = getResponse_from (FileSystemCache tagging_digest) example_fetch id example_args example_key
          (hasOnlyWithCacheOption (fst example_args) (snd example_args)) disk_world"
    by (simp add: getResponse_cjs_def example_key_derived)
  also have "\<dots> = (Rejects (StorageError ''EIO''),
       disk_world\<lparr> store := faulty_disk\<lparr> fs_index := (fs_index faulty_disk)(example_key @ ''body'' \<mapsto> ''sha512-bytes-hello''),
          fs_content := (fs_content faulty_disk)(''sha512-bytes-hello'' \<mapsto> Bytes ''hello''),
          fs_faults := [] \<rparr>,
         log := log disk_world @ [Get example_key, Lock example_key, Get example_key,
                  Fetch (fst example_args) (snd example_args), Put example_key, Unlock example_key] \<rparr>)"
    using getResponse_from_stored [where cache = "FileSystemCache tagging_digest" and w = disk_world
        and k = example_key and wait = id and fetch = example_fetch and args = example_args
        and res = example_response and r = "Rejects (StorageError ''EIO'')"
        and oic = "hasOnlyWithCacheOption (fst example_args) (snd example_args)"]
      faulty_disk_set faulty_disk_get example_not_only_if_cached
    by (simp add: s example_fetch_def)
  finally show ?thesis
    by (simp add: s faulty_disk_def new_FileSystemCache_def)
qed

text \<open>
  C4. In the TypeScript source every call of the cache-aware fetch rejects with a
  \<^verbatim>\<open>TypeError\<close> before it looks into the store: the key is derived from
  \<^verbatim>\<open>requestArguments.resource\<close> and \<^verbatim>\<open>requestArguments.init\<close>, which are \<^verbatim>\<open>undefined\<close>
  on the array of the arguments, and the derivation for a resource that is not a
  \<^verbatim>\<open>Request\<close> throws. A request with \<^verbatim>\<open>only-if-cached\<close> gets this error, not
  \<^verbatim>\<open>undefined\<close> and not the cached entry.
\<close>

theorem getResponse_rejects_every_call:
  "getResponse hash kf cache fetch wait args w = (Rejects TypeError, w)"
  by (simp add: getResponse_def getCacheKey_def getRequestCacheKey_def get_prop_def Let_def)

text \<open>
  The CommonJS build passes the arguments on, and does what the claim says: with the
  directive in \<^verbatim>\<open>init.headers\<close> or in the headers of the request, a miss returns
  \<^verbatim>\<open>undefined\<close> after one look into the store, and a hit returns the entry.
\<close>

lemma getResponse_cjs_only_if_cached:
  assumes "getCacheKey_cjs hash kf (fst args) (snd args) = Inr k"
    and "hasOnlyWithCacheOption (fst args) (snd args)"
  shows "cache_get cache (store w) k = Resolves None \<Longrightarrow>
           getResponse_cjs hash kf cache fetch wait args w = (Resolves None, logged (Get k) w)"
    and "cache_get cache (store w) k = Resolves (Some v) \<Longrightarrow>
           getResponse_cjs hash kf cache fetch wait args w
             = (Resolves (Some (new_NFCResponse v k True)), logged (Get k) w)"
  using assms getResponse_from_only_if_cached_miss [of cache w k _ fetch wait args]
    getResponse_from_hit [of cache w k v fetch wait args]
  by (simp_all add: getResponse_cjs_def)

lemma toLowerCase_Cache_Control: "toLowerCase ''Cache-Control'' = ''cache-control''"
  by code_simp

lemma hasOnlyWithCacheOption_init_headers:
  "hasOnlyWithCacheOption r (JObject [(''headers'', JObject [(''Cache-Control'', JStr ''only-if-cached'')])])"
  by (simp add: hasOnlyWithCacheOption_def js_member_def get_prop_def toLowerCase_Cache_Control)

lemma hasOnlyWithCacheOption_request:
  "hasOnlyWithCacheOption (Request [(''headers'', JHeaders [(''cache-control'', ''only-if-cached'')])]) JUndefined"
  by (simp add: hasOnlyWithCacheOption_def get_prop_def toLowerCase_Cache_Control)

end
